theory Spec2Isabelle
  imports Main "HOL-Library.Word" "HOL-Library.Signed_Division"
begin

unbundle bit_operations_syntax

section \<open>Machine integers\<close>

text \<open>
  Go's \<open>int64\<close> and \<open>uint64\<close> are 64-bit words: \<open>+\<close> and \<open>*\<close> wrap around, and the
  conversion \<open>uint64(x)\<close> of an \<open>int64\<close> keeps the bits. \<open>sint\<close> reads a word as the signed
  value Go computes with, \<open>uint\<close> as the unsigned one. Go's \<open>int\<close> is taken at its 64-bit
  size. Signed comparisons are \<open><s\<close> and \<open><=s\<close>.
\<close>

type_synonym int64 = "64 word"
type_synonym uint64 = "64 word"
type_synonym go_int = "64 word"
type_synonym byte = "8 word"

text \<open>
  Go's \<open>/\<close> on signed integers truncates towards zero (Isabelle's \<open>div\<close> rounds down;
  \<open>sdiv\<close> of the library theory Signed_Division truncates). The quotient is stored
  back into 64 bits, so \<open>MinInt64 / -1\<close> wraps to \<open>MinInt64\<close> as in Go. Division by zero
  panics in Go; every divisor in the modelled code is the non-zero constant \<open>1e6\<close>.
\<close>

definition go_div64 :: "int64 \<Rightarrow> int64 \<Rightarrow> int64" where
  "go_div64 a b = word_of_int (sint a sdiv sint b)"

section \<open>Floating point\<close>

text \<open>
  A \<open>float64\<close> is modelled by its value: \<open>Finite m e\<close> stands for \<open>m \<times> 2 ^ e\<close>, next to the
  two infinities and NaN. The sign of a zero is not kept; no modelled operation reads it.
  The values a \<open>float64\<close> can hold are those with \<open>\<bar>m\<bar> \<le> 2 ^ 53\<close> and
  \<open>- 1074 \<le> e\<close> below the overflow threshold \<open>2 ^ 1024\<close>; \<open>f64_round\<close> maps an exact
  dyadic value to the nearest of them, ties to even, as IEEE 754 arithmetic does after
  every operation.
\<close>

datatype float64 = Finite int int | PosInf | NegInf | NaN

function bitLen :: "int \<Rightarrow> int" where
  "bitLen k = (if k \<le> 0 then 0 else 1 + bitLen (k div 2))"
  by pat_completeness auto
termination
  by (relation "measure nat") auto

declare bitLen.simps [simp del]

definition roundHalfEven :: "int \<Rightarrow> int \<Rightarrow> int" where
  "roundHalfEven a s =
     (let q = a div 2 ^ nat s; r = a mod 2 ^ nat s; half = 2 ^ nat (s - 1)
      in if r < half then q
         else if half < r then q + 1
         else if even q then q else q + 1)"

definition f64_round :: "int \<Rightarrow> int \<Rightarrow> float64" where
  "f64_round m e =
     (let s = max (bitLen \<bar>m\<bar> - 53) (- 1074 - e);
          m' = (if s \<le> 0 then m else sgn m * roundHalfEven \<bar>m\<bar> s);
          e' = (if s \<le> 0 then e else e + s)
      in if m' \<noteq> 0 \<and> 1024 < bitLen \<bar>m'\<bar> + e'
         then (if 0 < m' then PosInf else NegInf)
         else Finite m' e')"

text \<open>The conversion \<open>float64(x)\<close> of an \<open>int64\<close>.\<close>

definition f64_of_int64 :: "int64 \<Rightarrow> float64" where
  "f64_of_int64 x = f64_round (sint x) 0"

text \<open>The product \<open>a * b\<close> of two \<open>float64\<close>: the exact product, rounded once.\<close>

fun f64_mul :: "float64 \<Rightarrow> float64 \<Rightarrow> float64" where
  "f64_mul NaN b = NaN"
| "f64_mul a NaN = NaN"
| "f64_mul (Finite m1 e1) (Finite m2 e2) = f64_round (m1 * m2) (e1 + e2)"
| "f64_mul (Finite m e) PosInf = (if m = 0 then NaN else if 0 < m then PosInf else NegInf)"
| "f64_mul (Finite m e) NegInf = (if m = 0 then NaN else if 0 < m then NegInf else PosInf)"
| "f64_mul PosInf (Finite m e) = (if m = 0 then NaN else if 0 < m then PosInf else NegInf)"
| "f64_mul NegInf (Finite m e) = (if m = 0 then NaN else if 0 < m then NegInf else PosInf)"
| "f64_mul PosInf PosInf = PosInf"
| "f64_mul PosInf NegInf = NegInf"
| "f64_mul NegInf PosInf = NegInf"
| "f64_mul NegInf NegInf = PosInf"

text \<open>
  The conversion \<open>int64(f)\<close> discards the fraction (truncation towards zero). When the
  truncated value does not fit in an \<open>int64\<close>, or \<open>f\<close> is an infinity or NaN, Go leaves the
  result to the implementation: it is the parameter \<open>outOfRange\<close>.
\<close>

definition f64_trunc :: "int \<Rightarrow> int \<Rightarrow> int" where
  "f64_trunc m e = (if 0 \<le> e then m * 2 ^ nat e else m sdiv 2 ^ nat (- e))"

definition int64_of_f64 :: "(float64 \<Rightarrow> int64) \<Rightarrow> float64 \<Rightarrow> int64" where
  "int64_of_f64 outOfRange f =
     (case f of
        Finite m e \<Rightarrow>
          (if - (2 ^ 63) \<le> f64_trunc m e \<and> f64_trunc m e < 2 ^ 63
           then word_of_int (f64_trunc m e) else outOfRange f)
      | _ \<Rightarrow> outOfRange f)"

text \<open>The comparisons \<open>f == 0\<close> and \<open>f > 0\<close>; both are false on NaN.\<close>

definition f64_is_zero :: "float64 \<Rightarrow> bool" where
  "f64_is_zero f = (case f of Finite m e \<Rightarrow> m = 0 | _ \<Rightarrow> False)"

definition f64_gt_zero :: "float64 \<Rightarrow> bool" where
  "f64_gt_zero f = (case f of Finite m e \<Rightarrow> 0 < m | PosInf \<Rightarrow> True | _ \<Rightarrow> False)"

definition f64_one :: float64 where
  "f64_one = Finite 1 0"

section \<open>Errors and outcomes\<close>

text \<open>
  A Go \<open>error\<close> value: the \<open>ErrRetry\<close> variant that \<open>pay\<close> returns with the probed amount,
  \<open>context.DeadlineExceeded\<close>, or any other error with its message. A nil error is \<open>None\<close>
  of \<open>goerror option\<close>; a Go result pair \<open>(v, err)\<close> is a sum with the error on the left.
\<close>

datatype goerror = ErrRetry int64 | DeadlineExceeded | Errorf string

text \<open>
  How a call ends: it returns, the process exits (\<open>os.Exit\<close>), it dies in \<open>log.Fatal\<close>
  (the message, then exit code 1), or it panics.
\<close>

datatype 'a outcome = Return 'a | Exit nat | Fatal string | Panic

section \<open>The lnd client's data (package lnrpc)\<close>

text \<open>
  These types belong to the lnd client library, not to the repository. The fields are the
  ones the code reads and the specification's data model lists. A pointer that can be nil
  is an \<open>option\<close>.
\<close>

record RoutingPolicy =
  TimeLockDelta :: "32 word"
  MinHtlc :: int64
  FeeBaseMsat :: int64
  FeeRateMilliMsat :: int64
  MaxHtlcMsat :: uint64

record ChannelEdge =
  ChannelId :: uint64
  Node1Pub :: string
  Node2Pub :: string
  EdgeCapacity :: int64
  Node1Policy :: "RoutingPolicy option"
  Node2Policy :: "RoutingPolicy option"

record Channel =
  Active :: bool
  RemotePubkey :: string
  ChanId :: uint64
  Capacity :: int64
  LocalBalance :: int64
  RemoteBalance :: int64

record Hop =
  HopChanId :: uint64
  HopPubKey :: string
  AmtToForwardMsat :: int64
  FeeMsat :: int64

record Route =
  TotalTimeLock :: "32 word"
  TotalFeesMsat :: int64
  TotalAmtMsat :: int64
  Hops :: "Hop list"

record NodeInfo =
  NodePubKey :: string
  Alias :: string
  NumChannels :: "32 word"
  TotalCapacity :: int64

datatype FeeLimit = FixedMsat int64 | Fixed int64 | Percent int64

record QueryRoutesRequest =
  PubKey :: string
  OutgoingChanId :: uint64
  LastHopPubkey :: "byte list"
  AmtMsat :: int64
  UseMissionControl :: bool
  FeeLimit :: FeeLimit

record ListChannelsRequest =
  ActiveOnly :: bool
  PublicOnly :: bool
  Peer :: "byte list"

section \<open>The policy fee (routes.go)\<close>

text \<open>
  \<^verbatim>\<open>
  func calcFeeMsat(amtMsat int64, policy *lnrpc.RoutingPolicy) int64 {
      return policy.FeeBaseMsat + amtMsat*policy.FeeRateMilliMsat/1e6
  }
  \<close>
  \<open>*\<close> and \<open>/\<close> associate to the left, and the untyped constant \<open>1e6\<close> becomes the
  \<open>int64\<close> 1000000. The function is modelled for a non-nil policy; the nil case (a panic)
  is a branch of the caller \<open>getRoutes\<close>.
\<close>

definition calcFeeMsat :: "int64 \<Rightarrow> RoutingPolicy \<Rightarrow> int64" where
  "calcFeeMsat amtMsat policy =
     FeeBaseMsat policy + go_div64 (amtMsat * FeeRateMilliMsat policy) 1000000"

text \<open>
  The fee formula of the specification, \<open>base_msat + amt_msat \<times> rate_ppm / 1_000_000\<close>, read
  over the unbounded integers with truncating division.
\<close>

definition exactPolicyFee :: "int \<Rightarrow> int \<Rightarrow> int \<Rightarrow> int" where
  "exactPolicyFee base_msat rate_ppm amt_msat = base_msat + (amt_msat * rate_ppm) sdiv 1000000"

section \<open>Configuration (main.go)\<close>

text \<open>
  The struct \<open>configParams\<close>, field by field. The program keeps it in the global \<open>params\<close>;
  the model passes it as an argument.
\<close>

record configParams =
  Config :: string
  Connect :: string
  TLSCert :: string
  MacaroonDir :: string
  MacaroonFilename :: string
  Network :: string
  FromPerc :: int64
  ToPerc :: int64
  Perc :: int64
  Amount :: int64
  RelAmountTo :: float64
  RelAmountFrom :: float64
  EconRatio :: float64
  EconRatioMaxPPM :: int64
  FeeLimitPPM :: int64
  LostProfit :: bool
  ProbeSteps :: go_int
  AllowRapidRebalance :: bool
  MinAmount :: int64
  ExcludeChannelsIn :: "string list"
  ExcludeChannelsOut :: "string list"
  ExcludeChannels :: "string list"
  ExcludeNodes :: "string list"
  Exclude :: "string list"
  To :: "string list"
  From :: "string list"
  FailTolerance :: int64
  AllowUnbalanceFrom :: bool
  AllowUnbalanceTo :: bool
  StatFilename :: string
  NodeCacheFilename :: string
  NodeCacheLifetime :: go_int
  NodeCacheInfo :: bool
  TimeoutRebalance :: go_int
  TimeoutAttempt :: go_int
  TimeoutInfo :: go_int
  TimeoutRoute :: go_int
  Version :: bool

text \<open>
  \<open>preflightChecks\<close> (main.go, lines 360 to 442) writes defaults into \<open>params\<close> through the
  pointer and returns the first error it finds. The model returns the error together with
  the parameters as they stand at the return, so the defaults written before an error are
  kept, as in the code. Each \<open>if params.F == zero { params.F = d }\<close> is the update
  \<open>F := (if F = zero then d else F)\<close>. With the version flag the function prints the
  version and ends the process with \<open>os.Exit(1)\<close>. The two \<open>log.Print\<close> notices about
  deprecated options have no effect on the result and are left out.
\<close>

definition preflightChecks :: "configParams \<Rightarrow> (goerror option \<times> configParams) outcome" where
  "preflightChecks params =
    (if Version params then Exit 1 else
     let p1 = params
           \<lparr>Connect := (if Connect params = [] then ''127.0.0.1:10009'' else Connect params),
            MacaroonFilename := (if MacaroonFilename params = [] then ''admin.macaroon''
                                 else MacaroonFilename params),
            Network := (if Network params = [] then ''mainnet'' else Network params),
            FromPerc := (if FromPerc params = 0 then 50 else FromPerc params),
            ToPerc := (if ToPerc params = 0 then 50 else ToPerc params),
            EconRatio := (if f64_is_zero (EconRatio params) \<and> FeeLimitPPM params = 0
                          then f64_one else EconRatio params)\<rparr>
     in
     if EconRatioMaxPPM p1 \<noteq> 0 \<and> FeeLimitPPM p1 \<noteq> 0
     then Return (Some (Errorf ''use either econ-ratio-max-ppm or fee-limit-ppm but not both''), p1)
     else
     let p2 = p1\<lparr>FromPerc := (if 0 <s Perc p1 then Perc p1 else FromPerc p1),
                   ToPerc := (if 0 <s Perc p1 then Perc p1 else ToPerc p1)\<rparr>
     in
     if 0 <s MinAmount p2 \<and> 0 <s Amount p2 \<and> Amount p2 <s MinAmount p2
     then Return (Some (Errorf ''minimum amount should be less than amount''), p2)
     else if 0 <s Amount p2 \<and> (f64_gt_zero (RelAmountFrom p2) \<or> f64_gt_zero (RelAmountTo p2))
     then Return (Some (Errorf ''use either precise amount or relative amounts but not both''), p2)
     else if Amount p2 = 0 \<and> f64_is_zero (RelAmountFrom p2) \<and> f64_is_zero (RelAmountTo p2)
     then Return (Some (Errorf
       ''no amount specified, use either --amount, --rel-amount-from, or --rel-amount-to''), p2)
     else
     let p3 = p2\<lparr>FailTolerance := (if FailTolerance p2 = 0 then 1000 else FailTolerance p2)\<rparr>
     in
     if (f64_gt_zero (RelAmountFrom p3) \<or> f64_gt_zero (RelAmountTo p3)) \<and> AllowRapidRebalance p3
     then Return (Some (Errorf ''use either relative amounts or rapid rebalance but not both''), p3)
     else
     let p4 = p3\<lparr>NodeCacheLifetime :=
                     (if NodeCacheLifetime p3 = 0 then 1440 else NodeCacheLifetime p3)\<rparr>
     in
     if (ExcludeChannels p4 \<noteq> [] \<or> ExcludeNodes p4 \<noteq> []) \<and> Exclude p4 \<noteq> []
     then Return (Some (Errorf
       ''can't use --exclude and --exclude-channel/--exclude-node (or config parameters) at the same time''), p4)
     else
     Return (None, p4
       \<lparr>TimeoutAttempt := (if TimeoutAttempt p4 = 0 then 5 else TimeoutAttempt p4),
        TimeoutRebalance := (if TimeoutRebalance p4 = 0 then 360 else TimeoutRebalance p4),
        TimeoutInfo := (if TimeoutInfo p4 = 0 then 30 else TimeoutInfo p4),
        TimeoutRoute := (if TimeoutRoute p4 = 0 then 30 else TimeoutRoute p4)\<rparr>))"


section \<open>Channel ids from strings (main.go)\<close>









section \<open>Hexadecimal strings (package encoding/hex)\<close>

text \<open>
  \<open>hex.DecodeString\<close> decodes pairs of hexadecimal digits from the left. At the first
  byte that is no digit, or at a lone last digit, it stops with an error and returns the
  bytes decoded so far next to it.
\<close>

definition fromHexChar :: "char \<Rightarrow> byte option" where
  "fromHexChar c =
     (let n = (of_char c :: nat)
      in if 48 \<le> n \<and> n \<le> 57 then Some (of_nat (n - 48))
         else if 97 \<le> n \<and> n \<le> 102 then Some (of_nat (n - 87))
         else if 65 \<le> n \<and> n \<le> 70 then Some (of_nat (n - 55))
         else None)"

fun hexDecodeString :: "string \<Rightarrow> byte list \<times> goerror option" where
  "hexDecodeString [] = ([], None)"
| "hexDecodeString [p] =
     (case fromHexChar p of
        None \<Rightarrow> ([], Some (Errorf ''encoding/hex: invalid byte''))
      | Some a \<Rightarrow> ([], Some (Errorf ''encoding/hex: odd length hex string'')))"
| "hexDecodeString (p # q # rest) =
     (case fromHexChar p of
        None \<Rightarrow> ([], Some (Errorf ''encoding/hex: invalid byte''))
      | Some a \<Rightarrow>
          (case fromHexChar q of
             None \<Rightarrow> ([], Some (Errorf ''encoding/hex: invalid byte''))
           | Some b \<Rightarrow>
               (case hexDecodeString rest of
                  (bytes, err) \<Rightarrow> ((push_bit 4 a OR b) # bytes, err))))"



section \<open>Contexts (package context)\<close>

text \<open>
  A context is named by how it was made: \<open>context.Background()\<close>, or
  \<open>context.WithTimeout(parent, d)\<close> with the duration \<open>d\<close> in nanoseconds. Whether its
  deadline has passed (\<open>ctx.Err() == context.DeadlineExceeded\<close>) depends on the clock;
  the environment answers it (the parameter \<open>deadlineExceeded\<close> below). The \<open>cancel\<close>
  functions release resources and decide nothing in the modelled code.
\<close>

datatype "context" = Background | WithTimeout "context" int64

definition Second :: int64 where
  "Second = 1000000000"

definition Minute :: int64 where
  "Minute = 60000000000"

section \<open>The rebalancer's state (main.go)\<close>

record failedRoute =
  channelPair :: "Channel \<times> Channel"
  expiration :: "int option"

text \<open>
  The struct \<open>regolancer\<close>. A Go map is a partial function, a \<open>map[uint64]struct{}\<close> a
  set. The two client handles are part of the environment below. \<open>nodeCache\<close> holds
  \<open>NodeInfo\<close> values, as \<open>getNodeInfo\<close> of routes.go stores them. The fields
  \<open>invoiceCache\<close> and \<open>failedPairs\<close>, which only functions outside the sources touch, are
  part of what those functions see through the state they are given.
\<close>

record regolancer =
  myPK :: string
  channels :: "Channel list"
  fromChannels :: "Channel list"
  fromChannelId :: "uint64 set"
  toChannels :: "Channel list"
  toChannelId :: "uint64 set"
  channelPairs :: "string \<rightharpoonup> Channel \<times> Channel"
  nodeCache :: "string \<rightharpoonup> NodeInfo"
  chanCache :: "uint64 \<rightharpoonup> ChannelEdge"
  failureCache :: "string \<rightharpoonup> failedRoute"
  excludeIn :: "uint64 set"
  excludeOut :: "uint64 set"
  excludeBoth :: "uint64 set"
  excludeNodes :: "byte list list"
  statFilename :: string
  routeFound :: bool
  invoiceCache :: "int64 \<rightharpoonup> string"
  mcCache :: "string \<rightharpoonup> int64"

text \<open>
  What the program does to the outside is recorded as a trace of events, in order: every
  RPC it issues, with the reply, and every call of a function that is not among the
  sources, with its arguments. The call of \<open>getChannelCandidates\<close> also records the
  \<open>regolancer\<close> it is given. The trace is kept by the model alone: the environment's
  functions neither see nor change it.
\<close>

datatype event =
    RpcGetChanInfo "context" uint64 "goerror + ChannelEdge"
  | RpcGetNodeInfo "context" string "goerror + NodeInfo"
  | RpcQueryRoutes "context" QueryRoutesRequest "goerror + Route list"
  | RpcListChannels "context" ListChannelsRequest "goerror + Channel list"
  | CallPickChannelPair int64 int64 float64 float64
  | CallGetRoutes "context" uint64 uint64 int64
  | CallAddFailedRoute uint64 uint64
  | CallPrintRoute "context" Route
  | CallPay "context" int64 int64 Route go_int
  | CallRebuildRoute "context" Route int64
  | CallInvalidateInvoice int64
  | CallGetChannelCandidates regolancer int64 int64 int64

text \<open>
  The world: the rebalancer, the state \<open>node\<close> of everything outside the process (the lnd
  node, the network, the clock), of a type the model does not look into, and the trace.
\<close>

record 'x world =
  reg :: regolancer
  node :: 'x
  trace :: "event list"

text \<open>
  The environment: the RPC client \<open>lnrpc.LightningClient\<close>, the clock behind the
  contexts, and the functions of the repository that the sources do not contain
  (\<open>pickChannelPair\<close>, \<open>addFailedRoute\<close>, \<open>pay\<close>, \<open>rebuildRoute\<close>, \<open>invalidateInvoice\<close>,
  \<open>getChannelCandidates\<close>, \<open>makeChanSet\<close>, and the \<open>getRoutes\<close> and \<open>printRoute\<close> that
  main.go calls with a context, here \<open>getRoutesCtx\<close> and \<open>printRouteCtx\<close>; routes.go holds
  an earlier \<open>getRoutes\<close> without one). \<open>startup\<close> stands for lines 458 to 582 of \<open>main\<close>
  (dialling lnd, listing the channels, building the filters and the candidate lists),
  which return the rebalancer or die in \<open>log.Fatal\<close>. Nothing is assumed about any of
  them: a theorem holds for every environment.
\<close>

record 'x env =
  GetChanInfo :: "context \<Rightarrow> uint64 \<Rightarrow> 'x \<Rightarrow> (goerror + ChannelEdge) \<times> 'x"
  GetNodeInfo :: "context \<Rightarrow> string \<Rightarrow> 'x \<Rightarrow> (goerror + NodeInfo) \<times> 'x"
  QueryRoutes :: "context \<Rightarrow> QueryRoutesRequest \<Rightarrow> 'x \<Rightarrow> (goerror + Route list) \<times> 'x"
  ListChannels :: "context \<Rightarrow> ListChannelsRequest \<Rightarrow> 'x \<Rightarrow> (goerror + Channel list) \<times> 'x"
  deadlineExceeded :: "context \<Rightarrow> 'x \<Rightarrow> bool"
  int64OutOfRange :: "float64 \<Rightarrow> int64"
  pickChannelPair :: "int64 \<Rightarrow> int64 \<Rightarrow> float64 \<Rightarrow> float64 \<Rightarrow> regolancer \<times> 'x
                        \<Rightarrow> (goerror + uint64 \<times> uint64 \<times> int64) \<times> regolancer \<times> 'x"
  getRoutesCtx :: "context \<Rightarrow> uint64 \<Rightarrow> uint64 \<Rightarrow> int64 \<Rightarrow> regolancer \<times> 'x
                        \<Rightarrow> (goerror + Route list \<times> int64) \<times> regolancer \<times> 'x"
  addFailedRoute :: "uint64 \<Rightarrow> uint64 \<Rightarrow> regolancer \<times> 'x \<Rightarrow> regolancer \<times> 'x"
  printRouteCtx :: "context \<Rightarrow> Route \<Rightarrow> regolancer \<times> 'x \<Rightarrow> regolancer \<times> 'x"
  pay :: "context \<Rightarrow> int64 \<Rightarrow> int64 \<Rightarrow> Route \<Rightarrow> go_int \<Rightarrow> regolancer \<times> 'x
                        \<Rightarrow> goerror option \<times> regolancer \<times> 'x"
  rebuildRoute :: "context \<Rightarrow> Route \<Rightarrow> int64 \<Rightarrow> regolancer \<times> 'x
                        \<Rightarrow> (goerror + Route) \<times> regolancer \<times> 'x"
  invalidateInvoice :: "int64 \<Rightarrow> regolancer \<times> 'x \<Rightarrow> regolancer \<times> 'x"
  getChannelCandidates :: "int64 \<Rightarrow> int64 \<Rightarrow> int64 \<Rightarrow> regolancer \<times> 'x
                        \<Rightarrow> goerror option \<times> regolancer \<times> 'x"
  makeChanSet :: "uint64 list \<Rightarrow> uint64 set"
  startup :: "configParams \<Rightarrow> context \<Rightarrow> 'x \<Rightarrow> (string + regolancer) \<times> 'x"

text \<open>
  An RPC runs on the node's state and is recorded with its reply; a call of an absent
  function runs on the rebalancer and the node and is recorded with its arguments.
\<close>

definition rpc :: "('x \<Rightarrow> 'a \<times> 'x) \<Rightarrow> ('a \<Rightarrow> event) \<Rightarrow> 'x world \<Rightarrow> 'a \<times> 'x world" where
  "rpc f ev w =
     (case f (node w) of (reply, x') \<Rightarrow> (reply, w\<lparr>node := x', trace := trace w @ [ev reply]\<rparr>))"

definition call :: "event \<Rightarrow> (regolancer \<times> 'x \<Rightarrow> 'a \<times> regolancer \<times> 'x) \<Rightarrow> 'x world \<Rightarrow> 'a \<times> 'x world"
  where
  "call ev f w =
     (case f (reg w, node w) of
        (res, r', x') \<Rightarrow> (res, \<lparr>reg = r', node = x', trace = trace w @ [ev]\<rparr>))"

definition callv :: "event \<Rightarrow> (regolancer \<times> 'x \<Rightarrow> regolancer \<times> 'x) \<Rightarrow> 'x world \<Rightarrow> 'x world" where
  "callv ev f w =
     (case f (reg w, node w) of (r', x') \<Rightarrow> \<lparr>reg = r', node = x', trace = trace w @ [ev]\<rparr>)"

section \<open>Channel and node information, routes (routes.go)\<close>

text \<open>
  \<^verbatim>\<open>
  func (r *regolancer) getChanInfo(ctx context.Context, chanId uint64) (*lnrpc.ChannelEdge, error) {
      if c, ok := r.chanCache[chanId]; ok {
          return c, nil
      }
      c, err := r.lnClient.GetChanInfo(ctx, &lnrpc.ChanInfoRequest{ChanId: chanId})
      if err != nil {
          return nil, err
      }
      r.chanCache[chanId] = c
      return c, nil
  }
  \<close>
\<close>

definition getChanInfo ::
  "'x env \<Rightarrow> context \<Rightarrow> uint64 \<Rightarrow> 'x world \<Rightarrow> (goerror + ChannelEdge) \<times> 'x world" where
  "getChanInfo env ctx chanId w =
     (case chanCache (reg w) chanId of
        Some c \<Rightarrow> (Inr c, w)
      | None \<Rightarrow>
          (case rpc (GetChanInfo env ctx chanId) (RpcGetChanInfo ctx chanId) w of
             (Inl err, w') \<Rightarrow> (Inl err, w')
           | (Inr c, w') \<Rightarrow>
               (Inr c, w'\<lparr>reg := (reg w')\<lparr>chanCache := (chanCache (reg w'))(chanId \<mapsto> c)\<rparr>\<rparr>)))"

text \<open>
  \<^verbatim>\<open>
  func (r *regolancer) getNodeInfo(pk string) (*lnrpc.NodeInfo, error) {
      if nodeInfo, ok := r.nodeCache[pk]; ok {
          return nodeInfo, nil
      }
      nodeInfo, err := r.lnClient.GetNodeInfo(context.Background(), &lnrpc.NodeInfoRequest{PubKey: pk})
      if err == nil {
          r.nodeCache[pk] = nodeInfo
      }
      return nodeInfo, err
  }
  \<close>
\<close>

definition getNodeInfo :: "'x env \<Rightarrow> string \<Rightarrow> 'x world \<Rightarrow> (goerror + NodeInfo) \<times> 'x world" where
  "getNodeInfo env pk w =
     (case nodeCache (reg w) pk of
        Some nodeInfo \<Rightarrow> (Inr nodeInfo, w)
      | None \<Rightarrow>
          (case rpc (GetNodeInfo env Background pk) (RpcGetNodeInfo Background pk) w of
             (Inr nodeInfo, w') \<Rightarrow>
               (Inr nodeInfo, w'\<lparr>reg := (reg w')\<lparr>nodeCache := (nodeCache (reg w'))(pk \<mapsto> nodeInfo)\<rparr>\<rparr>)
           | (Inl err, w') \<Rightarrow> (Inl err, w')))"

text \<open>
  \<open>getRoutes\<close> (routes.go, lines 28 to 58). The policy pointer may be nil, and
  \<open>calcFeeMsat\<close> then panics on reading its field. The fee limit is computed in
  \<open>float64\<close> and converted back with \<open>int64(feeMsat)\<close> where the request is built.
  \<^verbatim>\<open>
      lastPKstr := c.Node1Pub
      policy := c.Node2Policy
      if lastPKstr == r.myPK {
          lastPKstr = c.Node2Pub
          policy = c.Node1Policy
      }
      feeMsat := float64(calcFeeMsat(amtMsat, policy)) * ratio
  \<close>
\<close>

definition lastHopAndPolicy :: "string \<Rightarrow> ChannelEdge \<Rightarrow> string \<times> RoutingPolicy option" where
  "lastHopAndPolicy me c =
     (if Node1Pub c = me then (Node2Pub c, Node1Policy c) else (Node1Pub c, Node2Policy c))"

definition getRoutes ::
  "'x env \<Rightarrow> uint64 \<Rightarrow> uint64 \<Rightarrow> int64 \<Rightarrow> float64 \<Rightarrow> 'x world
     \<Rightarrow> (goerror + Route list) outcome \<times> 'x world" where
  "getRoutes env from to amtMsat ratio w =
     (let ctx = WithTimeout Background (Second * 30) in
      case getChanInfo env ctx to w of
        (Inl err, w1) \<Rightarrow> (Return (Inl err), w1)
      | (Inr c, w1) \<Rightarrow>
          (case lastHopAndPolicy (myPK (reg w1)) c of
             (lastPKstr, None) \<Rightarrow> (Panic, w1)
           | (lastPKstr, Some policy) \<Rightarrow>
               let feeMsat = f64_mul (f64_of_int64 (calcFeeMsat amtMsat policy)) ratio in
               (case hexDecodeString lastPKstr of
                  (lastPK, Some err) \<Rightarrow> (Return (Inl err), w1)
                | (lastPK, None) \<Rightarrow>
                    let req = \<lparr>PubKey = myPK (reg w1), OutgoingChanId = from,
                               LastHopPubkey = lastPK, AmtMsat = amtMsat,
                               UseMissionControl = True,
                               FeeLimit = FixedMsat (int64_of_f64 (int64OutOfRange env) feeMsat)\<rparr>
                    in (case rpc (QueryRoutes env ctx req) (RpcQueryRoutes ctx req) w1 of
                          (Inl err, w2) \<Rightarrow> (Return (Inl err), w2)
                        | (Inr routes, w2) \<Rightarrow> (Return (Inr routes), w2)))))"

section \<open>Rapid rebalance (main.go)\<close>

text \<open>
  \<open>tryRapidRebalance\<close> (main.go, lines 242 to 358) is a \<open>for\<close> loop without a bound: it
  runs as long as the payments succeed. \<open>rapidIteration\<close> is its body: one iteration
  either returns from the function or goes round again. The loop assigns to the
  parameters \<open>from\<close>, \<open>to\<close>, \<open>amt\<close> and \<open>route\<close>, so an iteration hands their new values
  on with the counter \<open>rapidAttempt\<close>. \<open>rapidLoop\<close> takes fuel, one unit per iteration;
  the result \<open>None\<close> says that the fuel ran out before the loop ended, and comes with the
  world as the iterations so far have left it. An error of \<open>hex.DecodeString\<close> is dropped by the code
  (\<open>fromPeer, _ := ...\<close>), which keeps the bytes decoded so far. The part of one
  iteration up to the reset of the working state:
  \<^verbatim>\<open>
      r.fromChannelId = makeChanSet([]uint64{from})
      r.toChannelId = makeChanSet([]uint64{to})
      r.channels = r.channels[:0]
      r.fromChannels = r.fromChannels[:0]
      r.toChannels = r.toChannels[:0]
      r.channels = append(r.channels, toChan.Channels...)
      r.channels = append(r.channels, fromChan.Channels...)
      for k := range r.failureCache { delete(r.failureCache, k) }
      for k := range r.channelPairs { delete(r.channelPairs, k) }
      err = r.getChannelCandidates(params.FromPerc, params.ToPerc, amt)
  \<close>
\<close>

definition peerOf :: "string \<Rightarrow> ChannelEdge \<Rightarrow> byte list" where
  "peerOf me c = fst (hexDecodeString (if Node1Pub c = me then Node2Pub c else Node1Pub c))"

definition resetWorkingState ::
  "'x env \<Rightarrow> uint64 \<Rightarrow> uint64 \<Rightarrow> Channel list \<Rightarrow> Channel list \<Rightarrow> regolancer \<Rightarrow> regolancer" where
  "resetWorkingState env from to toChan fromChan r =
     r\<lparr>fromChannelId := makeChanSet env [from],
       toChannelId := makeChanSet env [to],
       channels := [] @ toChan @ fromChan,
       fromChannels := [],
       toChannels := [],
       failureCache := Map.empty,
       channelPairs := Map.empty\<rparr>"

datatype rapidStep = RapidReturns "go_int \<times> goerror option" | RapidAgain uint64 uint64 Route int64 go_int

definition rapidIteration ::
  "'x env \<Rightarrow> configParams \<Rightarrow> context \<Rightarrow> uint64 \<Rightarrow> uint64 \<Rightarrow> Route \<Rightarrow> int64 \<Rightarrow> go_int
     \<Rightarrow> 'x world \<Rightarrow> rapidStep \<times> 'x world" where
  "rapidIteration env params ctx from to route amt rapidAttempt w =
     (case getChanInfo env ctx to w of
        (Inl err, w1) \<Rightarrow> (RapidReturns (rapidAttempt, Some err), w1)
      | (Inr cTo, w1) \<Rightarrow>
     (case getChanInfo env ctx from w1 of
        (Inl err, w2) \<Rightarrow> (RapidReturns (rapidAttempt, Some err), w2)
      | (Inr cFrom, w2) \<Rightarrow>
     let fromReq = \<lparr>ActiveOnly = True, PublicOnly = True, Peer = peerOf (myPK (reg w2)) cFrom\<rparr> in
     (case rpc (ListChannels env ctx fromReq) (RpcListChannels ctx fromReq) w2 of
        (Inl err, w3) \<Rightarrow> (RapidReturns (rapidAttempt, Some err), w3)
      | (Inr fromChan, w3) \<Rightarrow>
     let toReq = \<lparr>ActiveOnly = True, PublicOnly = True, Peer = peerOf (myPK (reg w3)) cTo\<rparr> in
     (case rpc (ListChannels env ctx toReq) (RpcListChannels ctx toReq) w3 of
        (Inl err, w4) \<Rightarrow> (RapidReturns (rapidAttempt, Some err), w4)
      | (Inr toChan, w4) \<Rightarrow>
     let w5 = w4\<lparr>reg := resetWorkingState env from to toChan fromChan (reg w4)\<rparr> in
     (case call (CallGetChannelCandidates (reg w5) (FromPerc params) (ToPerc params) amt)
             (getChannelCandidates env (FromPerc params) (ToPerc params) amt) w5 of
        (Some err, w6) \<Rightarrow> (RapidReturns (rapidAttempt, Some err), w6)
      | (None, w6) \<Rightarrow>
     (case call (CallPickChannelPair amt (MinAmount params) (RelAmountFrom params)
                   (RelAmountTo params))
             (pickChannelPair env amt (MinAmount params) (RelAmountFrom params)
                   (RelAmountTo params)) w6 of
        (Inl err, w7) \<Rightarrow> (RapidReturns (rapidAttempt, Some err), w7)
      | (Inr (from', to', amt'), w7) \<Rightarrow>
     (case call (CallRebuildRoute ctx route amt') (rebuildRoute env ctx route amt') w7 of
        (Inl err, w8) \<Rightarrow> (RapidReturns (rapidAttempt, Some err), w8)
      | (Inr route', w8) \<Rightarrow>
     let attemptCtx = WithTimeout ctx (Minute * TimeoutAttempt params) in
     (case call (CallPay attemptCtx amt' (MinAmount params) route' 0)
             (pay env attemptCtx amt' (MinAmount params) route' 0) w8 of
        (err, w9) \<Rightarrow>
          if deadlineExceeded env attemptCtx (node w9)
          then (RapidReturns (rapidAttempt, Some DeadlineExceeded), w9)
          else (case err of
                  Some e \<Rightarrow> (RapidReturns (rapidAttempt, None), w9)
                | None \<Rightarrow> (RapidAgain from' to' route' amt' (rapidAttempt + 1), w9))
     ))))))))"

fun rapidLoop ::
  "nat \<Rightarrow> 'x env \<Rightarrow> configParams \<Rightarrow> context \<Rightarrow> uint64 \<Rightarrow> uint64 \<Rightarrow> Route \<Rightarrow> int64 \<Rightarrow> go_int
     \<Rightarrow> 'x world \<Rightarrow> (go_int \<times> goerror option) option \<times> 'x world" where
  "rapidLoop 0 env params ctx from to route amt rapidAttempt w = (None, w)"
| "rapidLoop (Suc fuel) env params ctx from to route amt rapidAttempt w =
     (case rapidIteration env params ctx from to route amt rapidAttempt w of
        (RapidReturns res, w') \<Rightarrow> (Some res, w')
      | (RapidAgain from' to' route' amt' rapidAttempt', w') \<Rightarrow>
          rapidLoop fuel env params ctx from' to' route' amt' rapidAttempt' w')"

definition tryRapidRebalance ::
  "nat \<Rightarrow> 'x env \<Rightarrow> configParams \<Rightarrow> context \<Rightarrow> uint64 \<Rightarrow> uint64 \<Rightarrow> Route \<Rightarrow> int64
     \<Rightarrow> 'x world \<Rightarrow> (go_int \<times> goerror option) option \<times> 'x world" where
  "tryRapidRebalance fuel env params ctx from to route amt w =
     rapidLoop fuel env params ctx from to route amt 0 w"

section \<open>One rebalance attempt (main.go)\<close>

text \<open>
  The body of the loop over the routes in \<open>tryRebalance\<close> (lines 187 to 233), for one
  route: it either returns from \<open>tryRebalance\<close> or goes on to the next route with the
  amount and the attempt counter as they stand (\<open>amt\<close> is overwritten by an \<open>ErrRetry\<close>).
  The result of a rapid rebalance is only logged.
  \<^verbatim>\<open>
      r.printRoute(attemptCtx, route)
      err = r.pay(attemptCtx, amt, params.MinAmount, route, params.ProbeSteps)
      if err == nil {
          if params.AllowRapidRebalance { _, err := tryRapidRebalance(ctx, r, from, to, route, amt) ... }
          return nil, false
      }
      if retryErr, ok := err.(ErrRetry); ok {
          amt = retryErr.amount
          probedRoute, err := r.rebuildRoute(attemptCtx, route, amt)
          if err != nil {
              log.Printf(...)
          } else {
              err = r.pay(ctx, amt, 0, probedRoute, 0)
              if err == nil {
                  if params.AllowRapidRebalance && params.MinAmount > 0 {
                      _, err := tryRapidRebalance(ctx, r, from, to, probedRoute, amt) ...
                  }
                  return nil, false
              } else {
                  r.invalidateInvoice(amt)
                  log.Printf(...)
              }
          }
      }
      *attempt++
  \<close>
\<close>

datatype 'a step = Returns 'a | NextRoute int64 go_int

definition afterRapid ::
  "(go_int \<times> goerror option) option \<times> 'x world
     \<Rightarrow> ((goerror option \<times> bool) step \<times> 'x world) option" where
  "afterRapid res =
     (case res of (None, w) \<Rightarrow> None | (Some r, w) \<Rightarrow> Some (Returns (None, False), w))"

definition tryRoute ::
  "nat \<Rightarrow> 'x env \<Rightarrow> configParams \<Rightarrow> context \<Rightarrow> context \<Rightarrow> uint64 \<Rightarrow> uint64 \<Rightarrow> Route \<Rightarrow> int64
     \<Rightarrow> go_int \<Rightarrow> 'x world \<Rightarrow> ((goerror option \<times> bool) step \<times> 'x world) option" where
  "tryRoute fuel env params ctx attemptCtx from to route amt attempt w =
     (let w1 = callv (CallPrintRoute attemptCtx route) (printRouteCtx env attemptCtx route) w in
      case call (CallPay attemptCtx amt (MinAmount params) route (ProbeSteps params))
             (pay env attemptCtx amt (MinAmount params) route (ProbeSteps params)) w1 of
        (None, w2) \<Rightarrow>
          if AllowRapidRebalance params
          then afterRapid (tryRapidRebalance fuel env params ctx from to route amt w2)
          else Some (Returns (None, False), w2)
      | (Some (ErrRetry amt'), w2) \<Rightarrow>
          (case call (CallRebuildRoute attemptCtx route amt')
                  (rebuildRoute env attemptCtx route amt') w2 of
             (Inl err, w3) \<Rightarrow> Some (NextRoute amt' (attempt + 1), w3)
           | (Inr probedRoute, w3) \<Rightarrow>
               (case call (CallPay ctx amt' 0 probedRoute 0) (pay env ctx amt' 0 probedRoute 0) w3 of
                  (None, w4) \<Rightarrow>
                    if AllowRapidRebalance params \<and> 0 <s MinAmount params
                    then afterRapid
                           (tryRapidRebalance fuel env params ctx from to probedRoute amt' w4)
                    else Some (Returns (None, False), w4)
                | (Some err, w4) \<Rightarrow>
                    Some (NextRoute amt' (attempt + 1),
                          callv (CallInvalidateInvoice amt') (invalidateInvoice env amt') w4)))
      | (Some err, w2) \<Rightarrow> Some (NextRoute amt (attempt + 1), w2))"

fun payRoutes ::
  "nat \<Rightarrow> 'x env \<Rightarrow> configParams \<Rightarrow> context \<Rightarrow> context \<Rightarrow> uint64 \<Rightarrow> uint64 \<Rightarrow> Route list
     \<Rightarrow> int64 \<Rightarrow> go_int \<Rightarrow> 'x world
     \<Rightarrow> ((goerror option \<times> bool) option \<times> go_int \<times> 'x world) option" where
  "payRoutes fuel env params ctx attemptCtx from to [] amt attempt w = Some (None, attempt, w)"
| "payRoutes fuel env params ctx attemptCtx from to (route # routes) amt attempt w =
     (case tryRoute fuel env params ctx attemptCtx from to route amt attempt w of
        None \<Rightarrow> None
      | Some (Returns res, w') \<Rightarrow> Some (Some res, attempt, w')
      | Some (NextRoute amt' attempt', w') \<Rightarrow>
          payRoutes fuel env params ctx attemptCtx from to routes amt' attempt' w')"

text \<open>
  \<open>tryRebalance\<close> (main.go, lines 164 to 240) returns the error and \<open>repeat\<close>; the model
  returns the attempt counter it writes through the pointer as well.
  \<^verbatim>\<open>
      routes, fee, err := r.getRoutes(routeCtx, from, to, amt*1000)
      if err != nil {
          if routeCtx.Err() == context.DeadlineExceeded {
              log.Print(errColor("Timed out looking for a route"))
              return err, false
          }
          r.addFailedRoute(from, to)
          return err, true
      }
  \<close>
\<close>

definition tryRebalance ::
  "nat \<Rightarrow> 'x env \<Rightarrow> configParams \<Rightarrow> context \<Rightarrow> go_int \<Rightarrow> 'x world
     \<Rightarrow> ((goerror option \<times> bool) \<times> go_int \<times> 'x world) option" where
  "tryRebalance fuel env params ctx attempt w =
     (let attemptCtx = WithTimeout ctx (Minute * TimeoutAttempt params) in
      case call (CallPickChannelPair (Amount params) (MinAmount params) (RelAmountFrom params)
                   (RelAmountTo params))
             (pickChannelPair env (Amount params) (MinAmount params) (RelAmountFrom params)
                   (RelAmountTo params)) w of
        (Inl err, w1) \<Rightarrow> Some ((Some err, False), attempt, w1)
      | (Inr (from, to, amt), w1) \<Rightarrow>
          let routeCtx = WithTimeout attemptCtx (Second * TimeoutRoute params) in
          (case call (CallGetRoutes routeCtx from to (amt * 1000))
                  (getRoutesCtx env routeCtx from to (amt * 1000)) w1 of
             (Inl err, w2) \<Rightarrow>
               if deadlineExceeded env routeCtx (node w2)
               then Some ((Some err, False), attempt, w2)
               else Some ((Some err, True), attempt,
                          callv (CallAddFailedRoute from to) (addFailedRoute env from to) w2)
           | (Inr (routes, fee), w2) \<Rightarrow>
               (case payRoutes fuel env params ctx attemptCtx from to routes amt attempt w2 of
                  None \<Rightarrow> None
                | Some (Some res, attempt', w3) \<Rightarrow> Some (res, attempt', w3)
                | Some (None, attempt', w3) \<Rightarrow> Some ((None, True), attempt', w3))))"

section \<open>The session (main.go)\<close>

text \<open>
  The loop that ends \<open>main\<close> (lines 584 to 593), with fuel for its iterations:
  \<^verbatim>\<open>
      for {
          _, retry := tryRebalance(mainCtx, &r, &attempt)
          if mainCtx.Err() == context.DeadlineExceeded {
              log.Println(errColor("Rebalancing timed out"))
              return
          }
          if !retry {
              return
          }
      }
  \<close>
\<close>

fun sessionLoop ::
  "nat \<Rightarrow> 'x env \<Rightarrow> configParams \<Rightarrow> context \<Rightarrow> go_int \<Rightarrow> 'x world \<Rightarrow> 'x world option" where
  "sessionLoop 0 env params mainCtx attempt w = None"
| "sessionLoop (Suc fuel) env params mainCtx attempt w =
     (case tryRebalance (Suc fuel) env params mainCtx attempt w of
        None \<Rightarrow> None
      | Some ((err, retry), attempt', w') \<Rightarrow>
          if deadlineExceeded env mainCtx (node w') then Some w'
          else if \<not> retry then Some w'
          else sessionLoop fuel env params mainCtx attempt' w')"

text \<open>
  \<open>main\<close>, from the parameters as \<open>loadConfig\<close> and \<open>flags.Parse\<close> leave them. An error of
  \<open>preflightChecks\<close> ends the process in \<open>log.Fatal\<close> before the connection to lnd is
  made. The result is how the process ends, the state of the outside and the trace.
\<close>

definition errorText :: "goerror \<Rightarrow> string" where
  "errorText e =
     (case e of
        Errorf msg \<Rightarrow> msg
      | DeadlineExceeded \<Rightarrow> ''context deadline exceeded''
      | ErrRetry amt \<Rightarrow> ''retry'')"

definition main ::
  "nat \<Rightarrow> 'x env \<Rightarrow> configParams \<Rightarrow> 'x \<Rightarrow> (unit outcome \<times> 'x \<times> event list) option" where
  "main fuel env params0 x =
     (case preflightChecks params0 of
        Exit n \<Rightarrow> Some (Exit n, x, [])
      | Fatal msg \<Rightarrow> Some (Fatal msg, x, [])
      | Panic \<Rightarrow> Some (Panic, x, [])
      | Return (Some err, params) \<Rightarrow> Some (Fatal (errorText err), x, [])
      | Return (None, params) \<Rightarrow>
          let mainCtx = WithTimeout Background (Minute * TimeoutRebalance params) in
          (case startup env params mainCtx x of
             (Inl msg, x') \<Rightarrow> Some (Fatal msg, x', [])
           | (Inr r, x') \<Rightarrow>
               (case sessionLoop fuel env params mainCtx 1 \<lparr>reg = r, node = x', trace = []\<rparr> of
                  None \<Rightarrow> None
                | Some w \<Rightarrow> Some (Return (), node w, trace w))))"

section \<open>Reading the claims\<close>

text \<open>
  The error \<open>preflightChecks\<close> returns, without the parameters; the configurations the
  specification says preflight refuses, with the tests the code applies (an amount is
  given when it is positive, no amount mode at all is given when all three are zero);
  and a configuration with every option left at its zero value.
\<close>

definition preflightError :: "configParams \<Rightarrow> goerror option outcome" where
  "preflightError params =
     (case preflightChecks params of
        Return (err, params') \<Rightarrow> Return err
      | Exit n \<Rightarrow> Exit n
      | Fatal msg \<Rightarrow> Fatal msg
      | Panic \<Rightarrow> Panic)"


definition noParams :: configParams where
  "noParams =
     \<lparr>Config = [], Connect = [], TLSCert = [], MacaroonDir = [], MacaroonFilename = [],
      Network = [], FromPerc = 0, ToPerc = 0, Perc = 0, Amount = 0,
      RelAmountTo = Finite 0 0, RelAmountFrom = Finite 0 0, EconRatio = Finite 0 0,
      EconRatioMaxPPM = 0, FeeLimitPPM = 0, LostProfit = False, ProbeSteps = 0,
      AllowRapidRebalance = False, MinAmount = 0, ExcludeChannelsIn = [],
      ExcludeChannelsOut = [], ExcludeChannels = [], ExcludeNodes = [], Exclude = [],
      To = [], From = [], FailTolerance = 0, AllowUnbalanceFrom = False,
      AllowUnbalanceTo = False, StatFilename = [], NodeCacheFilename = [],
      NodeCacheLifetime = 0, NodeCacheInfo = False, TimeoutRebalance = 0, TimeoutAttempt = 0,
      TimeoutInfo = 0, TimeoutRoute = 0, Version = False\<rparr>"

text \<open>
  A sequence of cache lookups, to speak about every later call of \<open>getChanInfo\<close> and
  \<open>getNodeInfo\<close>.
\<close>

datatype lookup = ChanLookup "context" uint64 | NodeLookup string

fun runLookups :: "'x env \<Rightarrow> lookup list \<Rightarrow> 'x world \<Rightarrow> 'x world" where
  "runLookups env [] w = w"
| "runLookups env (ChanLookup ctx chanId # rest) w =
     runLookups env rest (snd (getChanInfo env ctx chanId w))"
| "runLookups env (NodeLookup pk # rest) w = runLookups env rest (snd (getNodeInfo env pk w))"

text \<open>
  The policy an edge holds for the endpoint with a given key, and the key of the endpoint
  that is not us.
\<close>

definition policyOfNode :: "ChannelEdge \<Rightarrow> string \<Rightarrow> RoutingPolicy option" where
  "policyOfNode c pk =
     (if Node1Pub c = pk then Node1Policy c
      else if Node2Pub c = pk then Node2Policy c
      else None)"

definition peerPub :: "string \<Rightarrow> ChannelEdge \<Rightarrow> string" where
  "peerPub me c = (if Node1Pub c = me then Node2Pub c else Node1Pub c)"

text \<open>The events a run added to the trace.\<close>

definition newEvents :: "'x world \<Rightarrow> 'x world \<Rightarrow> event list" where
  "newEvents w w' = drop (length (trace w)) (trace w')"



text \<open>The contexts \<open>tryRebalance\<close> makes from the one it is given.\<close>

definition attemptContext :: "configParams \<Rightarrow> context \<Rightarrow> context" where
  "attemptContext params ctx = WithTimeout ctx (Minute * TimeoutAttempt params)"

definition routeContext :: "configParams \<Rightarrow> context \<Rightarrow> context" where
  "routeContext params ctx =
     WithTimeout (WithTimeout ctx (Minute * TimeoutAttempt params)) (Second * TimeoutRoute params)"

section \<open>Examples\<close>

text \<open>
  The first scenario of the specification: our node \<open>02aa\<close>, the source channel 1 and
  the target channel 2 to the peer \<open>03bb\<close>, whose edge carries our policy (base 1000 msat,
  500 ppm) and the peer's (base 2000 msat, 900 ppm).
\<close>

definition examplePolicy :: "int64 \<Rightarrow> int64 \<Rightarrow> RoutingPolicy" where
  "examplePolicy base rate =
     \<lparr>TimeLockDelta = 40, MinHtlc = 1000, FeeBaseMsat = base, FeeRateMilliMsat = rate,
      MaxHtlcMsat = 990000000\<rparr>"

definition exampleEdge :: ChannelEdge where
  "exampleEdge =
     \<lparr>ChannelId = 2, Node1Pub = ''02aa'', Node2Pub = ''03bb'', EdgeCapacity = 1000000,
      Node1Policy = Some (examplePolicy 1000 500), Node2Policy = Some (examplePolicy 2000 900)\<rparr>"

definition exampleSourceEdge :: ChannelEdge where
  "exampleSourceEdge =
     \<lparr>ChannelId = 1, Node1Pub = ''02aa'', Node2Pub = ''03cc'', EdgeCapacity = 1000000,
      Node1Policy = Some (examplePolicy 1000 100), Node2Policy = Some (examplePolicy 1000 100)\<rparr>"

definition exampleChannel :: "uint64 \<Rightarrow> string \<Rightarrow> int64 \<Rightarrow> Channel" where
  "exampleChannel cid peer localBal =
     \<lparr>Active = True, RemotePubkey = peer, ChanId = cid, Capacity = 1000000,
      LocalBalance = localBal, RemoteBalance = 1000000 - localBal\<rparr>"

definition exampleRoute :: Route where
  "exampleRoute =
     \<lparr>TotalTimeLock = 800144, TotalFeesMsat = 3000, TotalAmtMsat = 100003000,
      Hops = [\<lparr>HopChanId = 1, HopPubKey = ''03cc'', AmtToForwardMsat = 100003000, FeeMsat = 0\<rparr>,
              \<lparr>HopChanId = 7, HopPubKey = ''03bb'', AmtToForwardMsat = 100000000, FeeMsat = 3000\<rparr>,
              \<lparr>HopChanId = 2, HopPubKey = ''02aa'', AmtToForwardMsat = 100000000, FeeMsat = 0\<rparr>]\<rparr>"

definition exampleNodeInfo :: "string \<Rightarrow> NodeInfo" where
  "exampleNodeInfo pk = \<lparr>NodePubKey = pk, Alias = ''peer'', NumChannels = 3, TotalCapacity = 5000000\<rparr>"

definition exampleRegolancer :: regolancer where
  "exampleRegolancer =
     \<lparr>myPK = ''02aa'',
      channels = [exampleChannel 1 ''03cc'' 900000, exampleChannel 2 ''03bb'' 100000],
      fromChannels = [exampleChannel 1 ''03cc'' 900000],
      fromChannelId = {},
      toChannels = [exampleChannel 2 ''03bb'' 100000],
      toChannelId = {},
      channelPairs = [''1-2'' \<mapsto> (exampleChannel 1 ''03cc'' 900000, exampleChannel 2 ''03bb'' 100000)],
      nodeCache = Map.empty,
      chanCache = Map.empty,
      failureCache = [''9-2'' \<mapsto> \<lparr>channelPair = (exampleChannel 9 ''03dd'' 900000,
                                                exampleChannel 2 ''03bb'' 100000),
                                 expiration = Some 1700000000\<rparr>],
      excludeIn = {}, excludeOut = {}, excludeBoth = {}, excludeNodes = [],
      statFilename = [], routeFound = False, invoiceCache = Map.empty, mcCache = Map.empty\<rparr>"

text \<open>
  An environment for the examples. The state of the outside is a counter of the requests
  the node has served. The node knows the channels 1 and 2 and the peer \<open>03bb\<close>; a payment
  with probing steps left asks for a retry at 50000, one without succeeds; the route
  query succeeds and no context has expired.
\<close>

definition exampleEnv :: "nat env" where
  "exampleEnv =
     \<lparr>GetChanInfo = (\<lambda>ctx chanId x.
        (if chanId = 2 then Inr exampleEdge
         else if chanId = 1 then Inr exampleSourceEdge
         else Inl (Errorf ''edge not found''), Suc x)),
      GetNodeInfo = (\<lambda>ctx pk x.
        (if pk = ''03bb'' then Inr (exampleNodeInfo pk) else Inl (Errorf ''node not found''), Suc x)),
      QueryRoutes = (\<lambda>ctx req x. (Inr [exampleRoute], Suc x)),
      ListChannels = (\<lambda>ctx req x. (Inr [exampleChannel 2 ''03bb'' 200000], Suc x)),
      deadlineExceeded = (\<lambda>ctx x. False),
      int64OutOfRange = (\<lambda>f. - 9223372036854775808),
      pickChannelPair = (\<lambda>amt minAmt relFrom relTo (r, x). (Inr (1, 2, amt), r, x)),
      getRoutesCtx = (\<lambda>ctx from to amtMsat (r, x). (Inr ([exampleRoute], 51000), r, Suc x)),
      addFailedRoute = (\<lambda>from to (r, x).
        (r\<lparr>failureCache := (failureCache r)(''1-2'' \<mapsto>
             \<lparr>channelPair = (exampleChannel from ''03cc'' 900000, exampleChannel to ''03bb'' 100000),
              expiration = Some 1700000300\<rparr>)\<rparr>, x)),
      printRouteCtx = (\<lambda>ctx route (r, x). (r, x)),
      pay = (\<lambda>ctx amt minAmt route steps (r, x).
        (if steps = 0 then None else Some (ErrRetry 50000), r, Suc x)),
      rebuildRoute = (\<lambda>ctx route amt (r, x). (Inr (route\<lparr>TotalAmtMsat := amt * 1000\<rparr>), r, x)),
      invalidateInvoice = (\<lambda>amt (r, x). (r\<lparr>invoiceCache := (invoiceCache r)(amt := None)\<rparr>, x)),
      getChannelCandidates = (\<lambda>fromPerc toPerc amt (r, x). (Some (Errorf ''no candidates''), r, x)),
      makeChanSet = set,
      startup = (\<lambda>params ctx x. (Inr exampleRegolancer, Suc x))\<rparr>"

definition exampleWorld :: "nat world" where
  "exampleWorld = \<lparr>reg = exampleRegolancer, node = 0, trace = []\<rparr>"




text \<open>
  The parameters of the first scenario as preflight leaves them, and the session's
  context.
\<close>

definition exampleParams :: configParams where
  "exampleParams =
     noParams\<lparr>Connect := ''127.0.0.1:10009'', MacaroonFilename := ''admin.macaroon'',
       Network := ''mainnet'', FromPerc := 50, ToPerc := 50, Amount := 100000,
       EconRatio := f64_one, ProbeSteps := 4, MinAmount := 10000, FailTolerance := 1000,
       NodeCacheLifetime := 1440, TimeoutRebalance := 360, TimeoutAttempt := 5,
       TimeoutInfo := 30, TimeoutRoute := 30\<rparr>"

definition sessionCtx :: "context" where
  "sessionCtx = WithTimeout Background (Minute * 360)"

text \<open>The route query fails and the route context, and no other, has expired.\<close>

definition routeTimeoutEnv :: "nat env" where
  "routeTimeoutEnv =
     exampleEnv\<lparr>
       getRoutesCtx := (\<lambda>ctx from to amtMsat (r, x).
         (Inl (Errorf ''context deadline exceeded''), r, Suc x)),
       deadlineExceeded := (\<lambda>ctx x. ctx = routeContext exampleParams sessionCtx)\<rparr>"

text \<open>The route query fails while the route context is alive.\<close>

definition routeErrorEnv :: "nat env" where
  "routeErrorEnv =
     exampleEnv\<lparr>
       getRoutesCtx := (\<lambda>ctx from to amtMsat (r, x). (Inl (Errorf ''no route''), r, Suc x))\<rparr>"

text \<open>The route cannot be rebuilt at the probed amount.\<close>

definition rebuildFailsEnv :: "nat env" where
  "rebuildFailsEnv =
     exampleEnv\<lparr>
       rebuildRoute := (\<lambda>ctx route amt (r, x). (Inl (Errorf ''unable to rebuild''), r, x))\<rparr>"

text \<open>The payment at the probed amount fails as well.\<close>

definition retryFailsEnv :: "nat env" where
  "retryFailsEnv =
     exampleEnv\<lparr>
       pay := (\<lambda>ctx amt minAmt route steps (r, x).
         (if steps = 0 then Some (Errorf ''payment failed'') else Some (ErrRetry 50000), r, Suc x))\<rparr>"

text \<open>The first scenario with a cap of 100 ppm on the fee: \<open>econ_ratio_max_ppm = 100\<close>.\<close>

definition cappedParams :: configParams where
  "cappedParams = exampleParams\<lparr>EconRatioMaxPPM := 100\<rparr>"


section \<open>Evaluating the examples\<close>

lemma bitLen_numeral [simp]:
  "bitLen 0 = 0"
  "bitLen (numeral n) = 1 + bitLen (numeral n div 2)"
  "bitLen 1 = 1"
  by (simp_all add: bitLen.simps [of 0] bitLen.simps [of "numeral n"] bitLen.simps [of 1])


lemmas example_defs = exampleEnv_def exampleWorld_def exampleRegolancer_def exampleEdge_def
  exampleSourceEdge_def
  examplePolicy_def exampleRoute_def exampleChannel_def exampleNodeInfo_def

lemmas model_defs = getRoutes_def getChanInfo_def getNodeInfo_def rpc_def call_def callv_def
  lastHopAndPolicy_def fromHexChar_def f64_of_int64_def f64_round_def f64_one_def
  int64_of_f64_def f64_trunc_def calcFeeMsat_def go_div64_def signed_divide_int_def
  Second_def Minute_def Let_def


lemmas scenario_defs = cappedParams_def exampleParams_def noParams_def sessionCtx_def routeTimeoutEnv_def
  routeErrorEnv_def rebuildFailsEnv_def retryFailsEnv_def routeContext_def attemptContext_def


section \<open>The policy fee\<close>

lemma sdiv_million_between:
  "(0 \<le> k \<longrightarrow> 0 \<le> k sdiv 1000000 \<and> k sdiv 1000000 \<le> k) \<and>
   (k \<le> 0 \<longrightarrow> k \<le> k sdiv 1000000 \<and> k sdiv 1000000 \<le> 0)" for k :: int
proof (cases "0 \<le> k")
  case True
  then have "k sdiv 1000000 = k div 1000000"
    by (cases "k = 0") (simp_all add: signed_divide_int_def)
  moreover have "0 \<le> k div 1000000" "k div 1000000 \<le> k"
    using True by simp_all
  ultimately show ?thesis
    using True by auto
next
  case False
  then have "k sdiv 1000000 = - ((- k) div 1000000)"
    by (simp add: signed_divide_int_def)
  moreover have "0 \<le> (- k) div 1000000" "(- k) div 1000000 \<le> - k"
    using False by simp_all
  ultimately show ?thesis
    using False by auto
qed

lemma sint_calcFeeMsat:
  assumes "- (2 ^ 63) \<le> sint amt * sint (FeeRateMilliMsat p)"
    and "sint amt * sint (FeeRateMilliMsat p) < 2 ^ 63"
    and "- (2 ^ 63) \<le> sint (FeeBaseMsat p) + (sint amt * sint (FeeRateMilliMsat p)) sdiv 1000000"
    and "sint (FeeBaseMsat p) + (sint amt * sint (FeeRateMilliMsat p)) sdiv 1000000 < 2 ^ 63"
  shows "sint (calcFeeMsat amt p)
         = sint (FeeBaseMsat p) + (sint amt * sint (FeeRateMilliMsat p)) sdiv 1000000"
proof -
  let ?q = "sint amt * sint (FeeRateMilliMsat p)"
  have prod: "sint (amt * FeeRateMilliMsat p) = ?q"
    using assms(1,2) by (simp add: sint_word_mult signed_take_bit_int_eq_self)
  have rng: "- (2 ^ 63) \<le> ?q sdiv 1000000" "?q sdiv 1000000 < 2 ^ 63"
    using sdiv_million_between [of ?q] assms(1,2) by linarith+
  have stb: "signed_take_bit (63::nat) (?q sdiv 1000000) = ?q sdiv 1000000"
    using rng by (intro signed_take_bit_int_eq_self) simp_all
  have "sint (go_div64 (amt * FeeRateMilliMsat p) 1000000)
        = signed_take_bit (63::nat) (?q sdiv 1000000)"
    by (simp add: go_div64_def prod sint_sbintrunc')
  then have quot: "sint (go_div64 (amt * FeeRateMilliMsat p) 1000000) = ?q sdiv 1000000"
    using stb by simp
  have "signed_take_bit (63::nat) (sint (FeeBaseMsat p) + ?q sdiv 1000000)
        = sint (FeeBaseMsat p) + ?q sdiv 1000000"
    using assms(3,4) by (intro signed_take_bit_int_eq_self) simp_all
  then show ?thesis
    by (simp add: calcFeeMsat_def sint_word_add quot)
qed

text \<open>
  Claim C7, as stated: for every policy and every amount the computed fee is
  \<open>base_msat + amt_msat \<times> rate_ppm / 1_000_000\<close> in exact integer arithmetic. The code
  multiplies in \<open>int64\<close>, so the product wraps once it leaves 64 bits: an amount of
  5_000_000_000 msat at a rate of 2_000_000_000 ppm gives a negative fee.
\<close>

theorem calcFeeMsat_exact_counterexample:
  "sint (calcFeeMsat 5000000000 (examplePolicy 0 2000000000)) = - 8446744073709 \<and>
   exactPolicyFee (sint (FeeBaseMsat (examplePolicy 0 2000000000)))
     (sint (FeeRateMilliMsat (examplePolicy 0 2000000000))) (sint (5000000000 :: int64))
     = 10000000000000"
  by (simp add: calcFeeMsat_def go_div64_def examplePolicy_def exactPolicyFee_def
      signed_divide_int_def)

text \<open>
  Claim C7, amended: whenever the product \<open>amt_msat \<times> rate_ppm\<close> and the final sum fit
  in a signed 64-bit integer, the computed policy fee equals
  \<open>base_msat + amt_msat \<times> rate_ppm / 1_000_000\<close> in exact integer arithmetic with
  truncating division.
\<close>

theorem calcFeeMsat_exact_in_range:
  assumes "- (2 ^ 63) \<le> sint amt * sint (FeeRateMilliMsat p)"
    and "sint amt * sint (FeeRateMilliMsat p) < 2 ^ 63"
    and "- (2 ^ 63) \<le> exactPolicyFee (sint (FeeBaseMsat p)) (sint (FeeRateMilliMsat p)) (sint amt)"
    and "exactPolicyFee (sint (FeeBaseMsat p)) (sint (FeeRateMilliMsat p)) (sint amt) < 2 ^ 63"
  shows "sint (calcFeeMsat amt p)
         = exactPolicyFee (sint (FeeBaseMsat p)) (sint (FeeRateMilliMsat p)) (sint amt)"
  using assms sint_calcFeeMsat [of amt p] by (simp add: exactPolicyFee_def)

theorem calcFeeMsat_exact_in_range_witness:
  "sint (calcFeeMsat 100000000 (examplePolicy 1000 500)) = 51000 \<and>
   exactPolicyFee (sint (FeeBaseMsat (examplePolicy 1000 500)))
     (sint (FeeRateMilliMsat (examplePolicy 1000 500))) (sint (100000000 :: int64)) = 51000"
proof -
  have ex: "exactPolicyFee (sint (FeeBaseMsat (examplePolicy 1000 500)))
     (sint (FeeRateMilliMsat (examplePolicy 1000 500))) (sint (100000000 :: int64)) = 51000"
    by (simp add: examplePolicy_def exactPolicyFee_def signed_divide_int_def)
  have "sint (calcFeeMsat 100000000 (examplePolicy 1000 500))
        = exactPolicyFee (sint (FeeBaseMsat (examplePolicy 1000 500)))
            (sint (FeeRateMilliMsat (examplePolicy 1000 500))) (sint (100000000 :: int64))"
    by (rule calcFeeMsat_exact_in_range)
      (simp_all add: examplePolicy_def exactPolicyFee_def signed_divide_int_def)
  with ex show ?thesis by simp
qed


section \<open>The fee limit of the route query\<close>

lemma getChanInfo_effect:
  assumes "getChanInfo env ctx k w = (res, w1)"
  shows "myPK (reg w1) = myPK (reg w) \<and>
         (trace w1 = trace w \<or> (\<exists>reply. trace w1 = trace w @ [RpcGetChanInfo ctx k reply]))"
  using assms
  by (auto simp add: getChanInfo_def rpc_def split: option.splits prod.splits sum.splits)

lemma lastHopAndPolicy_own:
  assumes "Node1Pub c = me \<or> Node2Pub c = me" "Node1Pub c \<noteq> Node2Pub c"
  shows "lastHopAndPolicy me c = (peerPub me c, policyOfNode c me)"
  using assms by (auto simp add: lastHopAndPolicy_def peerPub_def policyOfNode_def)


text \<open>
  Claim C2, as stated: the policy behind the fee limit is the peer's, the policy of the
  endpoint whose key is not ours. On the edge of channel 2 our node \<open>02aa\<close> is the first
  endpoint; the code takes \<open>Node1Policy\<close>, our own (1000 msat and 500 ppm, a fee of
  51_000 msat), and not the peer's (2000 msat and 900 ppm, a fee of 92_000 msat).
\<close>

theorem getRoutes_peer_policy_counterexample:
  "policyOfNode exampleEdge (peerPub ''02aa'' exampleEdge) = Some (examplePolicy 2000 900) \<and>
   calcFeeMsat 100000000 (examplePolicy 2000 900) = 92000 \<and>
   snd (lastHopAndPolicy ''02aa'' exampleEdge) = Some (examplePolicy 1000 500) \<and>
   newEvents exampleWorld (snd (getRoutes exampleEnv 1 2 100000000 f64_one exampleWorld)) =
     [RpcGetChanInfo (WithTimeout Background 30000000000) 2 (Inr exampleEdge),
      RpcQueryRoutes (WithTimeout Background 30000000000)
        \<lparr>PubKey = ''02aa'', OutgoingChanId = 1, LastHopPubkey = [3, 187], AmtMsat = 100000000,
         UseMissionControl = True, FeeLimit = FixedMsat 51000\<rparr> (Inr [exampleRoute])]"
  by (simp add: model_defs example_defs newEvents_def policyOfNode_def peerPub_def)

text \<open>
  Claim C2, amended: for every target channel edge that has our node as one of its two
  distinct endpoints, the policy \<open>P\<close> used to compute the fee limit of the route query
  is our own node's routing policy on that edge, the policy belonging to the endpoint
  whose public key is our own; the key of the other endpoint, the peer, is the last hop
  of the query.
\<close>

theorem getRoutes_uses_own_policy:
  assumes edge: "getChanInfo env (WithTimeout Background (Second * 30)) to w = (Inr c, w1)"
    and ours: "Node1Pub c = myPK (reg w) \<or> Node2Pub c = myPK (reg w)"
    and distinct: "Node1Pub c \<noteq> Node2Pub c"
    and issued: "RpcQueryRoutes ctx req reply
                   \<in> set (newEvents w (snd (getRoutes env from to amtMsat ratio w)))"
  shows "\<exists>P. policyOfNode c (myPK (reg w)) = Some P \<and>
             FeeLimit req = FixedMsat (int64_of_f64 (int64OutOfRange env)
                                         (f64_mul (f64_of_int64 (calcFeeMsat amtMsat P)) ratio)) \<and>
             LastHopPubkey req = fst (hexDecodeString (peerPub (myPK (reg w)) c))"
proof -
  let ?ctx = "WithTimeout Background (Second * 30)"
  from getChanInfo_effect [OF edge]
  have me: "myPK (reg w1) = myPK (reg w)"
    and tr: "trace w1 = trace w \<or> (\<exists>r. trace w1 = trace w @ [RpcGetChanInfo ?ctx to r])"
    by auto
  have lh: "lastHopAndPolicy (myPK (reg w1)) c
            = (peerPub (myPK (reg w)) c, policyOfNode c (myPK (reg w)))"
    using ours distinct me by (simp add: lastHopAndPolicy_own)
  have new1: "RpcQueryRoutes ctx req reply \<notin> set (newEvents w w1)"
    using tr by (auto simp add: newEvents_def)
  show ?thesis
  proof (cases "policyOfNode c (myPK (reg w))")
    case None
    then have "snd (getRoutes env from to amtMsat ratio w) = w1"
      using edge lh by (simp add: getRoutes_def Let_def)
    with issued new1 show ?thesis by simp
  next
    case (Some P)
    obtain lastPK herr where hx: "hexDecodeString (peerPub (myPK (reg w)) c) = (lastPK, herr)"
      by (cases "hexDecodeString (peerPub (myPK (reg w)) c)")
    show ?thesis
    proof (cases herr)
      case (Some e)
      then have "snd (getRoutes env from to amtMsat ratio w) = w1"
        using edge lh hx \<open>policyOfNode c (myPK (reg w)) = Some P\<close>
        by (simp add: getRoutes_def Let_def)
      with issued new1 show ?thesis by simp
    next
      case None
      let ?req = "\<lparr>PubKey = myPK (reg w1), OutgoingChanId = from, LastHopPubkey = lastPK,
                    AmtMsat = amtMsat, UseMissionControl = True,
                    FeeLimit = FixedMsat (int64_of_f64 (int64OutOfRange env)
                                 (f64_mul (f64_of_int64 (calcFeeMsat amtMsat P)) ratio))\<rparr>"
      have "\<exists>r. trace (snd (getRoutes env from to amtMsat ratio w))
                 = trace w1 @ [RpcQueryRoutes ?ctx ?req r]"
        using edge lh hx None \<open>policyOfNode c (myPK (reg w)) = Some P\<close>
        by (auto simp add: getRoutes_def Let_def rpc_def split: prod.splits sum.splits)
      then obtain r where
        "trace (snd (getRoutes env from to amtMsat ratio w)) = trace w1 @ [RpcQueryRoutes ?ctx ?req r]"
        by blast
      with issued tr have "req = ?req"
        by (auto simp add: newEvents_def)
      with hx \<open>policyOfNode c (myPK (reg w)) = Some P\<close> show ?thesis
        by simp
    qed
  qed
qed

theorem getRoutes_uses_own_policy_witness:
  "policyOfNode exampleEdge ''02aa'' = Some (examplePolicy 1000 500) \<and>
   RpcQueryRoutes (WithTimeout Background 30000000000)
      \<lparr>PubKey = ''02aa'', OutgoingChanId = 1, LastHopPubkey = [3, 187], AmtMsat = 100000000,
       UseMissionControl = True, FeeLimit = FixedMsat 51000\<rparr> (Inr [exampleRoute])
     \<in> set (newEvents exampleWorld (snd (getRoutes exampleEnv 1 2 100000000 f64_one exampleWorld))) \<and>
   FixedMsat 51000 = FixedMsat (int64_of_f64 (int64OutOfRange exampleEnv)
      (f64_mul (f64_of_int64 (calcFeeMsat 100000000 (examplePolicy 1000 500))) f64_one)) \<and>
   [3, 187] = fst (hexDecodeString (peerPub ''02aa'' exampleEdge))"
proof -
  let ?ctx = "WithTimeout Background (Second * 30)"
  let ?req = "\<lparr>PubKey = ''02aa'', OutgoingChanId = 1, LastHopPubkey = [3, 187],
      AmtMsat = 100000000, UseMissionControl = True, FeeLimit = FixedMsat 51000\<rparr>"
  have edge: "getChanInfo exampleEnv ?ctx 2 exampleWorld
      = (Inr exampleEdge, snd (getChanInfo exampleEnv ?ctx 2 exampleWorld))"
    by (simp add: getChanInfo_def rpc_def exampleEnv_def exampleWorld_def exampleRegolancer_def)
  have ours: "Node1Pub exampleEdge = myPK (reg exampleWorld) \<or>
      Node2Pub exampleEdge = myPK (reg exampleWorld)"
    by (simp add: exampleEdge_def exampleWorld_def exampleRegolancer_def)
  have distinct: "Node1Pub exampleEdge \<noteq> Node2Pub exampleEdge"
    by (simp add: exampleEdge_def)
  have issued: "RpcQueryRoutes (WithTimeout Background 30000000000) ?req (Inr [exampleRoute])
      \<in> set (newEvents exampleWorld (snd (getRoutes exampleEnv 1 2 100000000 f64_one exampleWorld)))"
    by (simp add: model_defs example_defs newEvents_def)
  have own: "policyOfNode exampleEdge ''02aa'' = Some (examplePolicy 1000 500)"
    by (simp add: policyOfNode_def exampleEdge_def)
  have me: "myPK (reg exampleWorld) = ''02aa''"
    by (simp add: exampleWorld_def exampleRegolancer_def)
  from getRoutes_uses_own_policy [OF edge ours distinct issued] own me
  have "FeeLimit ?req = FixedMsat (int64_of_f64 (int64OutOfRange exampleEnv)
      (f64_mul (f64_of_int64 (calcFeeMsat 100000000 (examplePolicy 1000 500))) f64_one)) \<and>
    LastHopPubkey ?req = fst (hexDecodeString (peerPub ''02aa'' exampleEdge))"
    by simp
  with own issued show ?thesis
    by simp
qed

section \<open>The channel and node caches\<close>

lemma getChanInfo_hit:
  "chanCache (reg w) k = Some c \<Longrightarrow> getChanInfo env ctx k w = (Inr c, w)"
  by (simp add: getChanInfo_def)

lemma getNodeInfo_hit:
  "nodeCache (reg w) pk = Some n \<Longrightarrow> getNodeInfo env pk w = (Inr n, w)"
  by (simp add: getNodeInfo_def)

lemma getChanInfo_error_keeps:
  "fst (getChanInfo env ctx k w) = Inl err \<Longrightarrow> reg (snd (getChanInfo env ctx k w)) = reg w"
  by (auto simp add: getChanInfo_def rpc_def split: option.splits prod.splits sum.splits)

lemma getNodeInfo_error_keeps:
  "fst (getNodeInfo env pk w) = Inl err \<Longrightarrow> reg (snd (getNodeInfo env pk w)) = reg w"
  by (auto simp add: getNodeInfo_def rpc_def split: option.splits prod.splits sum.splits)

lemma getChanInfo_stores:
  "getChanInfo env ctx k w = (Inr c, w1) \<Longrightarrow> chanCache (reg w1) k = Some c"
  by (auto simp add: getChanInfo_def rpc_def split: option.splits prod.splits sum.splits)

lemma getNodeInfo_stores:
  "getNodeInfo env pk w = (Inr n, w1) \<Longrightarrow> nodeCache (reg w1) pk = Some n"
  by (auto simp add: getNodeInfo_def rpc_def split: option.splits prod.splits sum.splits)

lemma getChanInfo_preserves:
  "chanCache (reg w) k = Some c \<Longrightarrow> chanCache (reg (snd (getChanInfo env ctx k' w))) k = Some c"
  "nodeCache (reg w) pk = Some n \<Longrightarrow> nodeCache (reg (snd (getChanInfo env ctx k' w))) pk = Some n"
  by (auto simp add: getChanInfo_def rpc_def split: option.splits prod.splits sum.splits)

lemma getNodeInfo_preserves:
  "chanCache (reg w) k = Some c \<Longrightarrow> chanCache (reg (snd (getNodeInfo env pk' w))) k = Some c"
  "nodeCache (reg w) pk = Some n \<Longrightarrow> nodeCache (reg (snd (getNodeInfo env pk' w))) pk = Some n"
  by (auto simp add: getNodeInfo_def rpc_def split: option.splits prod.splits sum.splits)

lemma runLookups_preserves_chan:
  "chanCache (reg w) k = Some c \<Longrightarrow> chanCache (reg (runLookups env ls w)) k = Some c"
proof (induction ls arbitrary: w)
  case Nil
  then show ?case by simp
next
  case (Cons l ls)
  then show ?case
    by (cases l) (simp_all add: getChanInfo_preserves getNodeInfo_preserves)
qed

lemma runLookups_preserves_node:
  "nodeCache (reg w) pk = Some n \<Longrightarrow> nodeCache (reg (runLookups env ls w)) pk = Some n"
proof (induction ls arbitrary: w)
  case Nil
  then show ?case by simp
next
  case (Cons l ls)
  then show ?case
    by (cases l) (simp_all add: getChanInfo_preserves getNodeInfo_preserves)
qed

text \<open>
  Claim C10: \<open>getChanInfo\<close> and \<open>getNodeInfo\<close> leave the rebalancer, and so their
  caches, unchanged when they return an error, which they do only when the RPC fails;
  and after a call that succeeded, a call with the same key made after any further
  lookups returns the same value and leaves the world as it is: no RPC is recorded and
  the node is not reached.
\<close>

theorem caches_kept_and_used:
  "(fst (getChanInfo env ctx k w) = Inl err \<longrightarrow> reg (snd (getChanInfo env ctx k w)) = reg w) \<and>
   (fst (getNodeInfo env pk w) = Inl err \<longrightarrow> reg (snd (getNodeInfo env pk w)) = reg w) \<and>
   (getChanInfo env ctx k w = (Inr c, w1) \<longrightarrow>
      getChanInfo env ctx' k (runLookups env ls w1) = (Inr c, runLookups env ls w1)) \<and>
   (getNodeInfo env pk w = (Inr n, w1) \<longrightarrow>
      getNodeInfo env pk (runLookups env ls w1) = (Inr n, runLookups env ls w1))"
proof -
  have chan: "getChanInfo env ctx' k (runLookups env ls w1) = (Inr c, runLookups env ls w1)"
    if "getChanInfo env ctx k w = (Inr c, w1)"
    using that by (intro getChanInfo_hit runLookups_preserves_chan) (rule getChanInfo_stores)
  have nd: "getNodeInfo env pk (runLookups env ls w1) = (Inr n, runLookups env ls w1)"
    if "getNodeInfo env pk w = (Inr n, w1)"
    using that by (intro getNodeInfo_hit runLookups_preserves_node) (rule getNodeInfo_stores)
  show ?thesis
    using getChanInfo_error_keeps [of env ctx k w err] getNodeInfo_error_keeps [of env pk w err]
      chan nd
    by blast
qed

theorem caches_kept_and_used_witness:
  "fst (getChanInfo exampleEnv sessionCtx 9 exampleWorld) = Inl (Errorf ''edge not found'') \<and>
   reg (snd (getChanInfo exampleEnv sessionCtx 9 exampleWorld)) = reg exampleWorld \<and>
   fst (getNodeInfo exampleEnv ''03ff'' exampleWorld) = Inl (Errorf ''node not found'') \<and>
   reg (snd (getNodeInfo exampleEnv ''03ff'' exampleWorld)) = reg exampleWorld \<and>
   fst (getChanInfo exampleEnv sessionCtx 2 exampleWorld) = Inr exampleEdge \<and>
   getChanInfo exampleEnv Background 2
     (runLookups exampleEnv [ChanLookup sessionCtx 9, NodeLookup ''03bb'', ChanLookup sessionCtx 1]
        (snd (getChanInfo exampleEnv sessionCtx 2 exampleWorld)))
   = (Inr exampleEdge,
      runLookups exampleEnv [ChanLookup sessionCtx 9, NodeLookup ''03bb'', ChanLookup sessionCtx 1]
        (snd (getChanInfo exampleEnv sessionCtx 2 exampleWorld))) \<and>
   fst (getNodeInfo exampleEnv ''03bb'' exampleWorld) = Inr (exampleNodeInfo ''03bb'') \<and>
   getNodeInfo exampleEnv ''03bb''
     (runLookups exampleEnv [ChanLookup sessionCtx 9, NodeLookup ''03ff'']
        (snd (getNodeInfo exampleEnv ''03bb'' exampleWorld)))
   = (Inr (exampleNodeInfo ''03bb''),
      runLookups exampleEnv [ChanLookup sessionCtx 9, NodeLookup ''03ff'']
        (snd (getNodeInfo exampleEnv ''03bb'' exampleWorld)))"
proof -
  have e1: "fst (getChanInfo exampleEnv sessionCtx 9 exampleWorld) = Inl (Errorf ''edge not found'')"
    by (simp add: getChanInfo_def rpc_def exampleEnv_def exampleWorld_def exampleRegolancer_def)
  have e2: "fst (getNodeInfo exampleEnv ''03ff'' exampleWorld) = Inl (Errorf ''node not found'')"
    by (simp add: getNodeInfo_def rpc_def exampleEnv_def exampleWorld_def exampleRegolancer_def)
  have s1: "getChanInfo exampleEnv sessionCtx 2 exampleWorld
      = (Inr exampleEdge, snd (getChanInfo exampleEnv sessionCtx 2 exampleWorld))"
    by (simp add: getChanInfo_def rpc_def exampleEnv_def exampleWorld_def exampleRegolancer_def)
  have s2: "getNodeInfo exampleEnv ''03bb'' exampleWorld
      = (Inr (exampleNodeInfo ''03bb''), snd (getNodeInfo exampleEnv ''03bb'' exampleWorld))"
    by (simp add: getNodeInfo_def rpc_def exampleEnv_def exampleWorld_def exampleRegolancer_def)
  note fail = caches_kept_and_used [of exampleEnv sessionCtx 9 exampleWorld
      "Errorf ''edge not found''" "''03bb''"]
  note fail' = caches_kept_and_used [of exampleEnv sessionCtx 9 exampleWorld
      "Errorf ''node not found''" "''03ff''"]
  note hit = caches_kept_and_used [of exampleEnv sessionCtx 2 exampleWorld _ "''03bb''"
      exampleEdge "snd (getChanInfo exampleEnv sessionCtx 2 exampleWorld)" Background
      "[ChanLookup sessionCtx 9, NodeLookup ''03bb'', ChanLookup sessionCtx 1]"]
  note hit' = caches_kept_and_used [of exampleEnv sessionCtx 2 exampleWorld _ "''03bb''"
      _ "snd (getNodeInfo exampleEnv ''03bb'' exampleWorld)" _
      "[ChanLookup sessionCtx 9, NodeLookup ''03ff'']" "exampleNodeInfo ''03bb''"]
  from fail e1 have a: "reg (snd (getChanInfo exampleEnv sessionCtx 9 exampleWorld)) = reg exampleWorld"
    by simp
  from fail' e2 have b: "reg (snd (getNodeInfo exampleEnv ''03ff'' exampleWorld)) = reg exampleWorld"
    by simp
  from hit s1 have c: "getChanInfo exampleEnv Background 2
     (runLookups exampleEnv [ChanLookup sessionCtx 9, NodeLookup ''03bb'', ChanLookup sessionCtx 1]
        (snd (getChanInfo exampleEnv sessionCtx 2 exampleWorld)))
   = (Inr exampleEdge,
      runLookups exampleEnv [ChanLookup sessionCtx 9, NodeLookup ''03bb'', ChanLookup sessionCtx 1]
        (snd (getChanInfo exampleEnv sessionCtx 2 exampleWorld)))"
    by blast
  from hit' s2 have d: "getNodeInfo exampleEnv ''03bb''
     (runLookups exampleEnv [ChanLookup sessionCtx 9, NodeLookup ''03ff'']
        (snd (getNodeInfo exampleEnv ''03bb'' exampleWorld)))
   = (Inr (exampleNodeInfo ''03bb''),
      runLookups exampleEnv [ChanLookup sessionCtx 9, NodeLookup ''03ff'']
        (snd (getNodeInfo exampleEnv ''03bb'' exampleWorld)))"
    by blast
  have f1: "fst (getChanInfo exampleEnv sessionCtx 2 exampleWorld) = Inr exampleEdge"
    by (simp add: getChanInfo_def rpc_def exampleEnv_def exampleWorld_def exampleRegolancer_def)
  have f2: "fst (getNodeInfo exampleEnv ''03bb'' exampleWorld) = Inr (exampleNodeInfo ''03bb'')"
    by (simp add: getNodeInfo_def rpc_def exampleEnv_def exampleWorld_def exampleRegolancer_def)
  from e1 e2 a b c d f1 f2 show ?thesis
    by blast
qed

section \<open>The rebalance attempt\<close>

text \<open>
  Claim C3, as stated: when the route query fails and the route context has expired, the
  session loop goes on with further attempts. In the code \<open>tryRebalance\<close> then returns
  \<open>repeat = false\<close>, and \<open>main\<close> leaves its loop although the session's deadline has not
  passed: the session makes one attempt.
\<close>

theorem tryRebalance_route_timeout_counterexample:
  "deadlineExceeded routeTimeoutEnv (routeContext exampleParams sessionCtx) 1 \<and>
   \<not> deadlineExceeded routeTimeoutEnv sessionCtx 1 \<and>
   tryRebalance (Suc (Suc 0)) routeTimeoutEnv exampleParams sessionCtx 1 exampleWorld =
     Some ((Some (Errorf ''context deadline exceeded''), False), 1,
       \<lparr>reg = exampleRegolancer, node = 1,
        trace = [CallPickChannelPair 100000 10000 (Finite 0 0) (Finite 0 0),
                 CallGetRoutes (routeContext exampleParams sessionCtx) 1 2 100000000]\<rparr>) \<and>
   sessionLoop (Suc (Suc 0)) routeTimeoutEnv exampleParams sessionCtx 1 exampleWorld =
     Some \<lparr>reg = exampleRegolancer, node = 1,
        trace = [CallPickChannelPair 100000 10000 (Finite 0 0) (Finite 0 0),
                 CallGetRoutes (routeContext exampleParams sessionCtx) 1 2 100000000]\<rparr>"
  by (simp add: tryRebalance_def call_def callv_def Let_def scenario_defs exampleEnv_def
      exampleWorld_def Second_def Minute_def)

text \<open>
  Claim C3, amended: when the route query inside a rebalance attempt returns an error
  and the route context's deadline has not expired, \<open>addFailedRoute\<close> is called for the
  pair and the attempt returns the error with \<open>repeat = true\<close>; when the deadline has
  expired, the pair is not added, the attempt returns the error with \<open>repeat = false\<close>,
  and the session loop ends with this attempt.
\<close>

theorem tryRebalance_route_error:
  assumes pick: "pickChannelPair env (Amount p) (MinAmount p) (RelAmountFrom p) (RelAmountTo p)
                   (reg w, node w) = (Inr (src, dst, amt), r1, x1)"
    and query: "getRoutesCtx env (routeContext p ctx) src dst (amt * 1000) (r1, x1)
                   = (Inl err, r2, x2)"
  shows "(\<not> deadlineExceeded env (routeContext p ctx) x2 \<longrightarrow>
            tryRebalance fuel env p ctx attempt w =
              Some ((Some err, True), attempt,
                \<lparr>reg = fst (addFailedRoute env src dst (r2, x2)),
                 node = snd (addFailedRoute env src dst (r2, x2)),
                 trace = trace w @
                   [CallPickChannelPair (Amount p) (MinAmount p) (RelAmountFrom p) (RelAmountTo p),
                    CallGetRoutes (routeContext p ctx) src dst (amt * 1000),
                    CallAddFailedRoute src dst]\<rparr>)) \<and>
         (deadlineExceeded env (routeContext p ctx) x2 \<longrightarrow>
            tryRebalance fuel env p ctx attempt w =
              Some ((Some err, False), attempt,
                \<lparr>reg = r2, node = x2,
                 trace = trace w @
                   [CallPickChannelPair (Amount p) (MinAmount p) (RelAmountFrom p) (RelAmountTo p),
                    CallGetRoutes (routeContext p ctx) src dst (amt * 1000)]\<rparr>) \<and>
            sessionLoop (Suc fuel) env p ctx attempt w =
              Some \<lparr>reg = r2, node = x2,
                 trace = trace w @
                   [CallPickChannelPair (Amount p) (MinAmount p) (RelAmountFrom p) (RelAmountTo p),
                    CallGetRoutes (routeContext p ctx) src dst (amt * 1000)]\<rparr>)"
  using pick query
  by (auto simp add: tryRebalance_def call_def callv_def routeContext_def Let_def
      split: prod.splits)

theorem tryRebalance_route_error_witness:
  "\<not> deadlineExceeded routeErrorEnv (routeContext exampleParams sessionCtx) 1 \<and>
   map_option (\<lambda>(res, n, w). (res, n, trace w))
     (tryRebalance (Suc 0) routeErrorEnv exampleParams sessionCtx 1 exampleWorld) =
     Some ((Some (Errorf ''no route''), True), 1,
        [CallPickChannelPair 100000 10000 (Finite 0 0) (Finite 0 0),
         CallGetRoutes (routeContext exampleParams sessionCtx) 1 2 100000000,
         CallAddFailedRoute 1 2]) \<and>
   deadlineExceeded routeTimeoutEnv (routeContext exampleParams sessionCtx) 1 \<and>
   map_option trace (sessionLoop (Suc (Suc 0)) routeTimeoutEnv exampleParams sessionCtx 1 exampleWorld) =
     Some [CallPickChannelPair 100000 10000 (Finite 0 0) (Finite 0 0),
           CallGetRoutes (routeContext exampleParams sessionCtx) 1 2 100000000]"
proof -
  have pick1: "pickChannelPair routeErrorEnv (Amount exampleParams) (MinAmount exampleParams)
      (RelAmountFrom exampleParams) (RelAmountTo exampleParams) (reg exampleWorld, node exampleWorld)
      = (Inr (1, 2, 100000), exampleRegolancer, 0)"
    by (simp add: scenario_defs exampleEnv_def exampleWorld_def)
  have query1: "getRoutesCtx routeErrorEnv (routeContext exampleParams sessionCtx) 1 2 (100000 * 1000)
      (exampleRegolancer, 0) = (Inl (Errorf ''no route''), exampleRegolancer, 1)"
    by (simp add: scenario_defs exampleEnv_def)
  have alive: "\<not> deadlineExceeded routeErrorEnv (routeContext exampleParams sessionCtx) 1"
    by (simp add: scenario_defs exampleEnv_def)
  have pick2: "pickChannelPair routeTimeoutEnv (Amount exampleParams) (MinAmount exampleParams)
      (RelAmountFrom exampleParams) (RelAmountTo exampleParams) (reg exampleWorld, node exampleWorld)
      = (Inr (1, 2, 100000), exampleRegolancer, 0)"
    by (simp add: scenario_defs exampleEnv_def exampleWorld_def)
  have query2: "getRoutesCtx routeTimeoutEnv (routeContext exampleParams sessionCtx) 1 2 (100000 * 1000)
      (exampleRegolancer, 0) = (Inl (Errorf ''context deadline exceeded''), exampleRegolancer, 1)"
    by (simp add: scenario_defs exampleEnv_def)
  have expired: "deadlineExceeded routeTimeoutEnv (routeContext exampleParams sessionCtx) 1"
    by (simp add: scenario_defs exampleEnv_def)
  have params: "Amount exampleParams = 100000" "MinAmount exampleParams = 10000"
    "RelAmountFrom exampleParams = Finite 0 0" "RelAmountTo exampleParams = Finite 0 0"
    by (simp_all add: scenario_defs)
  from tryRebalance_route_error [OF pick1 query1, of "Suc 0" 1] alive
  have one: "tryRebalance (Suc 0) routeErrorEnv exampleParams sessionCtx 1 exampleWorld =
      Some ((Some (Errorf ''no route''), True), 1,
        \<lparr>reg = fst (addFailedRoute routeErrorEnv 1 2 (exampleRegolancer, 1)),
         node = snd (addFailedRoute routeErrorEnv 1 2 (exampleRegolancer, 1)),
         trace = trace exampleWorld @
           [CallPickChannelPair 100000 10000 (Finite 0 0) (Finite 0 0),
            CallGetRoutes (routeContext exampleParams sessionCtx) 1 2 100000000,
            CallAddFailedRoute 1 2]\<rparr>)"
    by (simp add: params)
  from tryRebalance_route_error [OF pick2 query2, of "Suc 0" 1] expired
  have two: "sessionLoop (Suc (Suc 0)) routeTimeoutEnv exampleParams sessionCtx 1 exampleWorld =
      Some \<lparr>reg = exampleRegolancer, node = 1,
         trace = trace exampleWorld @
           [CallPickChannelPair 100000 10000 (Finite 0 0) (Finite 0 0),
            CallGetRoutes (routeContext exampleParams sessionCtx) 1 2 100000000]\<rparr>"
    by (simp add: params)
  from one two alive expired show ?thesis
    by (simp add: exampleWorld_def)
qed

text \<open>
  How the loop over the routes and \<open>tryRebalance\<close> pass on what the body does for the
  first route: a return of the body is the return of \<open>tryRebalance\<close>.
\<close>

lemma payRoutes_Returns:
  assumes "tryRoute fuel env p ctx attemptCtx src dst route amt attempt w = Some (Returns res, w')"
  shows "payRoutes fuel env p ctx attemptCtx src dst (route # routes) amt attempt w
         = Some (Some res, attempt, w')"
  using assms by simp

lemma payRoutes_NextRoute:
  assumes "tryRoute fuel env p ctx attemptCtx src dst route amt attempt w
           = Some (NextRoute amt' attempt', w')"
  shows "payRoutes fuel env p ctx attemptCtx src dst (route # routes) amt attempt w
         = payRoutes fuel env p ctx attemptCtx src dst routes amt' attempt' w'"
  using assms by simp

lemma tryRebalance_first_route_returns:
  assumes pick: "pickChannelPair env (Amount p) (MinAmount p) (RelAmountFrom p) (RelAmountTo p)
                   (reg w, node w) = (Inr (src, dst, amt), r1, x1)"
    and query: "getRoutesCtx env (routeContext p ctx) src dst (amt * 1000) (r1, x1)
                   = (Inr (route # routes, fee), r2, x2)"
    and body: "tryRoute fuel env p ctx (attemptContext p ctx) src dst route amt attempt
                 \<lparr>reg = r2, node = x2,
                  trace = trace w @
                    [CallPickChannelPair (Amount p) (MinAmount p) (RelAmountFrom p) (RelAmountTo p),
                     CallGetRoutes (routeContext p ctx) src dst (amt * 1000)]\<rparr>
               = Some (Returns res, w')"
  shows "tryRebalance fuel env p ctx attempt w = Some (res, attempt, w')"
  using pick query body
  by (simp add: tryRebalance_def call_def routeContext_def attemptContext_def Let_def)

text \<open>
  Claim C4, as stated: whenever \<open>pay\<close> returns \<open>ErrRetry\<close>, \<open>pay\<close> is invoked once more.
  When \<open>rebuildRoute\<close> fails at the probed amount the code only logs the error: no
  second payment is made, no invoice is invalidated, and the loop goes to the next route.
\<close>

theorem tryRoute_rebuild_fails_counterexample:
  "pay rebuildFailsEnv (attemptContext exampleParams sessionCtx) 100000 10000 exampleRoute 4
     (exampleRegolancer, 0) = (Some (ErrRetry 50000), exampleRegolancer, 1) \<and>
   tryRoute (Suc 0) rebuildFailsEnv exampleParams sessionCtx (attemptContext exampleParams sessionCtx)
     1 2 exampleRoute 100000 1 exampleWorld =
     Some (NextRoute 50000 2,
       \<lparr>reg = exampleRegolancer, node = 1,
        trace = [CallPrintRoute (attemptContext exampleParams sessionCtx) exampleRoute,
                 CallPay (attemptContext exampleParams sessionCtx) 100000 10000 exampleRoute 4,
                 CallRebuildRoute (attemptContext exampleParams sessionCtx) exampleRoute 50000]\<rparr>)"
  by (simp add: tryRoute_def call_def callv_def Let_def scenario_defs exampleEnv_def
      exampleWorld_def)

text \<open>
  Claim C4, amended: whenever \<open>pay\<close> returns \<open>ErrRetry\<close> with the probed amount \<open>amt'\<close>
  during a rebalance attempt and the route is rebuilt at \<open>amt'\<close> without error, \<open>pay\<close> is
  invoked exactly once more for this route, under the context \<open>tryRebalance\<close> was given
  (the session's), with \<open>min_amount\<close> 0 and \<open>probe_steps\<close> 0. If that payment succeeds
  the attempt returns success, right away or, with rapid rebalance allowed and
  \<open>min_amount > 0\<close>, once the rapid rebalance has returned; otherwise the invoice for
  \<open>amt'\<close> is invalidated and the loop goes to the next route.
\<close>

theorem tryRoute_retry:
  assumes first: "pay env attemptCtx amt (MinAmount p) route (ProbeSteps p)
                    (printRouteCtx env attemptCtx route (reg w, node w))
                  = (Some (ErrRetry amt'), r2, x2)"
    and rebuilt: "rebuildRoute env attemptCtx route amt' (r2, x2) = (Inr probedRoute, r3, x3)"
    and second: "pay env ctx amt' 0 probedRoute 0 (r3, x3) = (res, r4, x4)"
    and events: "evs = trace w @
                   [CallPrintRoute attemptCtx route,
                    CallPay attemptCtx amt (MinAmount p) route (ProbeSteps p),
                    CallRebuildRoute attemptCtx route amt',
                    CallPay ctx amt' 0 probedRoute 0]"
  shows "(res = None \<and> \<not> (AllowRapidRebalance p \<and> 0 <s MinAmount p) \<longrightarrow>
            tryRoute fuel env p ctx attemptCtx src dst route amt attempt w
              = Some (Returns (None, False), \<lparr>reg = r4, node = x4, trace = evs\<rparr>)) \<and>
         (res = None \<and> AllowRapidRebalance p \<and> 0 <s MinAmount p \<longrightarrow>
            tryRoute fuel env p ctx attemptCtx src dst route amt attempt w
              = afterRapid (tryRapidRebalance fuel env p ctx src dst probedRoute amt'
                              \<lparr>reg = r4, node = x4, trace = evs\<rparr>) \<and>
            (\<forall>out w'. tryRoute fuel env p ctx attemptCtx src dst route amt attempt w = Some (out, w')
               \<longrightarrow> out = Returns (None, False))) \<and>
         (res \<noteq> None \<longrightarrow>
            tryRoute fuel env p ctx attemptCtx src dst route amt attempt w
              = Some (NextRoute amt' (attempt + 1),
                  \<lparr>reg = fst (invalidateInvoice env amt' (r4, x4)),
                   node = snd (invalidateInvoice env amt' (r4, x4)),
                   trace = evs @ [CallInvalidateInvoice amt']\<rparr>))"
  using first rebuilt second events
  by (auto simp add: tryRoute_def call_def callv_def Let_def afterRapid_def
      split: prod.splits option.splits)

theorem tryRoute_retry_witness:
  "tryRoute (Suc 0) exampleEnv exampleParams sessionCtx (attemptContext exampleParams sessionCtx)
     1 2 exampleRoute 100000 1 exampleWorld =
     Some (Returns (None, False),
       \<lparr>reg = exampleRegolancer, node = 2,
        trace = [CallPrintRoute (attemptContext exampleParams sessionCtx) exampleRoute,
                 CallPay (attemptContext exampleParams sessionCtx) 100000 10000 exampleRoute 4,
                 CallRebuildRoute (attemptContext exampleParams sessionCtx) exampleRoute 50000,
                 CallPay sessionCtx 50000 0 (exampleRoute\<lparr>TotalAmtMsat := 50000000\<rparr>) 0]\<rparr>) \<and>
   tryRoute (Suc 0) retryFailsEnv exampleParams sessionCtx (attemptContext exampleParams sessionCtx)
     1 2 exampleRoute 100000 1 exampleWorld =
     Some (NextRoute 50000 2,
       \<lparr>reg = exampleRegolancer, node = 2,
        trace = [CallPrintRoute (attemptContext exampleParams sessionCtx) exampleRoute,
                 CallPay (attemptContext exampleParams sessionCtx) 100000 10000 exampleRoute 4,
                 CallRebuildRoute (attemptContext exampleParams sessionCtx) exampleRoute 50000,
                 CallPay sessionCtx 50000 0 (exampleRoute\<lparr>TotalAmtMsat := 50000000\<rparr>) 0,
                 CallInvalidateInvoice 50000]\<rparr>) \<and>
   map_option fst
     (tryRoute (Suc 0) exampleEnv (exampleParams\<lparr>AllowRapidRebalance := True\<rparr>) sessionCtx
        (attemptContext exampleParams sessionCtx) 1 2 exampleRoute 100000 1 exampleWorld)
     = Some (Returns (None, False))"
proof -
  let ?actx = "attemptContext exampleParams sessionCtx"
  let ?probed = "exampleRoute\<lparr>TotalAmtMsat := 50000000\<rparr>"
  have params: "MinAmount exampleParams = 10000" "ProbeSteps exampleParams = 4"
    "\<not> AllowRapidRebalance exampleParams"
    "MinAmount (exampleParams\<lparr>AllowRapidRebalance := True\<rparr>) = 10000"
    "ProbeSteps (exampleParams\<lparr>AllowRapidRebalance := True\<rparr>) = 4"
    "AllowRapidRebalance (exampleParams\<lparr>AllowRapidRebalance := True\<rparr>)"
    by (simp_all add: scenario_defs)
  have pos: "(0 :: int64) <s 10000"
    by (simp add: word_sless_alt)
  have first: "pay exampleEnv ?actx 100000 10000 exampleRoute 4
      (printRouteCtx exampleEnv ?actx exampleRoute (reg exampleWorld, node exampleWorld))
      = (Some (ErrRetry 50000), exampleRegolancer, 1)"
    by (simp add: exampleEnv_def exampleWorld_def)
  have rebuilt: "rebuildRoute exampleEnv ?actx exampleRoute 50000 (exampleRegolancer, 1)
      = (Inr ?probed, exampleRegolancer, 1)"
    by (simp add: exampleEnv_def)
  have second: "pay exampleEnv sessionCtx 50000 0 ?probed 0 (exampleRegolancer, 1)
      = (None, exampleRegolancer, 2)"
    by (simp add: exampleEnv_def)
  have first': "pay retryFailsEnv ?actx 100000 10000 exampleRoute 4
      (printRouteCtx retryFailsEnv ?actx exampleRoute (reg exampleWorld, node exampleWorld))
      = (Some (ErrRetry 50000), exampleRegolancer, 1)"
    by (simp add: scenario_defs exampleEnv_def exampleWorld_def)
  have rebuilt': "rebuildRoute retryFailsEnv ?actx exampleRoute 50000 (exampleRegolancer, 1)
      = (Inr ?probed, exampleRegolancer, 1)"
    by (simp add: scenario_defs exampleEnv_def)
  have second': "pay retryFailsEnv sessionCtx 50000 0 ?probed 0 (exampleRegolancer, 1)
      = (Some (Errorf ''payment failed''), exampleRegolancer, 2)"
    by (simp add: scenario_defs exampleEnv_def)
  have inval: "invalidateInvoice retryFailsEnv 50000 (exampleRegolancer, 2) = (exampleRegolancer, 2)"
    by (simp add: scenario_defs exampleEnv_def exampleRegolancer_def)
  note ok = tryRoute_retry [where p = exampleParams and fuel = "Suc 0" and src = 1 and dst = 2
      and attempt = 1, OF _ rebuilt second refl]
  note failed = tryRoute_retry [where p = exampleParams and fuel = "Suc 0" and src = 1 and dst = 2
      and attempt = 1, OF _ rebuilt' second' refl]
  note rapid = tryRoute_retry [where p = "exampleParams\<lparr>AllowRapidRebalance := True\<rparr>"
      and fuel = "Suc 0" and src = 1 and dst = 2 and attempt = 1, OF _ rebuilt second refl]
  have a: "tryRoute (Suc 0) exampleEnv exampleParams sessionCtx ?actx 1 2 exampleRoute 100000 1
      exampleWorld = Some (Returns (None, False), \<lparr>reg = exampleRegolancer, node = 2,
        trace = trace exampleWorld @ [CallPrintRoute ?actx exampleRoute,
                 CallPay ?actx 100000 10000 exampleRoute 4,
                 CallRebuildRoute ?actx exampleRoute 50000,
                 CallPay sessionCtx 50000 0 ?probed 0]\<rparr>)"
    using ok first params by simp
  have b: "tryRoute (Suc 0) retryFailsEnv exampleParams sessionCtx ?actx 1 2 exampleRoute 100000 1
      exampleWorld = Some (NextRoute 50000 2, \<lparr>reg = exampleRegolancer, node = 2,
        trace = (trace exampleWorld @ [CallPrintRoute ?actx exampleRoute,
                 CallPay ?actx 100000 10000 exampleRoute 4,
                 CallRebuildRoute ?actx exampleRoute 50000,
                 CallPay sessionCtx 50000 0 ?probed 0]) @ [CallInvalidateInvoice 50000]\<rparr>)"
    using failed first' params inval by simp
  have "tryRoute (Suc 0) exampleEnv (exampleParams\<lparr>AllowRapidRebalance := True\<rparr>) sessionCtx
        ?actx 1 2 exampleRoute 100000 1 exampleWorld
      = afterRapid (tryRapidRebalance (Suc 0) exampleEnv (exampleParams\<lparr>AllowRapidRebalance := True\<rparr>)
          sessionCtx 1 2 ?probed 50000
          \<lparr>reg = exampleRegolancer, node = 2,
           trace = trace exampleWorld @ [CallPrintRoute ?actx exampleRoute,
                 CallPay ?actx 100000 10000 exampleRoute 4,
                 CallRebuildRoute ?actx exampleRoute 50000,
                 CallPay sessionCtx 50000 0 ?probed 0]\<rparr>)"
    using rapid first params pos by simp
  moreover have "fst (tryRapidRebalance (Suc 0) exampleEnv (exampleParams\<lparr>AllowRapidRebalance := True\<rparr>)
          sessionCtx 1 2 ?probed 50000
          \<lparr>reg = exampleRegolancer, node = 2,
           trace = trace exampleWorld @ [CallPrintRoute ?actx exampleRoute,
                 CallPay ?actx 100000 10000 exampleRoute 4,
                 CallRebuildRoute ?actx exampleRoute 50000,
                 CallPay sessionCtx 50000 0 ?probed 0]\<rparr>)
      = Some (0, Some (Errorf ''no candidates''))"
    by (simp add: tryRapidRebalance_def rapidIteration_def getChanInfo_def rpc_def call_def
        resetWorkingState_def peerOf_def fromHexChar_def Let_def exampleEnv_def exampleWorld_def
        exampleRegolancer_def exampleEdge_def exampleSourceEdge_def scenario_defs)
  ultimately have c: "map_option fst
     (tryRoute (Suc 0) exampleEnv (exampleParams\<lparr>AllowRapidRebalance := True\<rparr>) sessionCtx
        ?actx 1 2 exampleRoute 100000 1 exampleWorld) = Some (Returns (None, False))"
    by (simp add: afterRapid_def split: prod.splits option.splits)
  from a b c show ?thesis
    by (simp add: exampleWorld_def)
qed

section \<open>Rapid rebalance\<close>










section \<open>Configuration preflight\<close>






text \<open>
  Claim C9, as stated: with \<open>min_amount > amount > 0\<close> preflight returns the error
  \<open>minimum amount should be less than amount\<close>. The check of the two fee caps comes
  first in the code, so with both of them set the error returned is another one.
\<close>

theorem preflight_min_amount_counterexample:
  "0 <s MinAmount (noParams\<lparr>Amount := 5, MinAmount := 10, EconRatioMaxPPM := 1, FeeLimitPPM := 1\<rparr>) \<and>
   0 <s Amount (noParams\<lparr>Amount := 5, MinAmount := 10, EconRatioMaxPPM := 1, FeeLimitPPM := 1\<rparr>) \<and>
   Amount (noParams\<lparr>Amount := 5, MinAmount := 10, EconRatioMaxPPM := 1, FeeLimitPPM := 1\<rparr>)
     <s MinAmount (noParams\<lparr>Amount := 5, MinAmount := 10, EconRatioMaxPPM := 1, FeeLimitPPM := 1\<rparr>) \<and>
   preflightError (noParams\<lparr>Amount := 5, MinAmount := 10, EconRatioMaxPPM := 1, FeeLimitPPM := 1\<rparr>)
     = Return (Some (Errorf ''use either econ-ratio-max-ppm or fee-limit-ppm but not both''))"
  by (simp add: preflightError_def preflightChecks_def noParams_def Let_def f64_is_zero_def
      word_sless_alt)

lemma preflight_min_amount:
  assumes "\<not> Version p" "\<not> (EconRatioMaxPPM p \<noteq> 0 \<and> FeeLimitPPM p \<noteq> 0)"
    and "0 <s MinAmount p" "0 <s Amount p" "Amount p <s MinAmount p"
  shows "\<exists>p'. preflightChecks p
           = Return (Some (Errorf ''minimum amount should be less than amount''), p')"
  using assms by (simp add: preflightChecks_def Let_def)

lemma preflight_min_amount_fails:
  assumes "0 <s MinAmount p" "0 <s Amount p" "Amount p <s MinAmount p"
  shows "preflightChecks p = Exit 1 \<or> (\<exists>msg p'. preflightChecks p = Return (Some (Errorf msg), p'))"
proof (cases "Version p")
  case True
  then show ?thesis by (simp add: preflightChecks_def)
next
  case False
  with assms show ?thesis by (simp add: preflightChecks_def Let_def)
qed

text \<open>
  Claim C9, amended: if \<open>min_amount\<close> and \<open>amount\<close> are both positive and
  \<open>min_amount > amount\<close>, the program ends at startup, in \<open>log.Fatal\<close> or in the exit of
  the version flag, before the node is reached or any RPC is made; and unless the version
  flag is set or \<open>econ_ratio_max_ppm\<close> and \<open>fee_limit_ppm\<close> are both set, the error that
  preflight returns and the program dies with is
  \<open>minimum amount should be less than amount\<close>.
\<close>

theorem main_min_amount_fatal:
  assumes "0 <s MinAmount p" "0 <s Amount p" "Amount p <s MinAmount p"
  shows "(\<exists>msg. main fuel env p x = Some (Fatal msg, x, []) \<or> main fuel env p x = Some (Exit 1, x, [])) \<and>
         (\<not> Version p \<and> \<not> (EconRatioMaxPPM p \<noteq> 0 \<and> FeeLimitPPM p \<noteq> 0) \<longrightarrow>
            preflightError p = Return (Some (Errorf ''minimum amount should be less than amount'')) \<and>
            main fuel env p x = Some (Fatal ''minimum amount should be less than amount'', x, []))"
proof -
  have general: "\<exists>msg. main fuel env p x = Some (Fatal msg, x, []) \<or> main fuel env p x = Some (Exit 1, x, [])"
    using preflight_min_amount_fails [OF assms]
    by (auto simp add: main_def)
  have specific: "preflightError p = Return (Some (Errorf ''minimum amount should be less than amount'')) \<and>
            main fuel env p x = Some (Fatal ''minimum amount should be less than amount'', x, [])"
    if "\<not> Version p" "\<not> (EconRatioMaxPPM p \<noteq> 0 \<and> FeeLimitPPM p \<noteq> 0)"
    using preflight_min_amount [OF that assms]
    by (auto simp add: main_def preflightError_def errorText_def)
  from general specific show ?thesis by blast
qed

theorem main_min_amount_fatal_witness:
  "0 <s MinAmount (exampleParams\<lparr>MinAmount := 200000\<rparr>) \<and>
   0 <s Amount (exampleParams\<lparr>MinAmount := 200000\<rparr>) \<and>
   Amount (exampleParams\<lparr>MinAmount := 200000\<rparr>) <s MinAmount (exampleParams\<lparr>MinAmount := 200000\<rparr>) \<and>
   preflightError (exampleParams\<lparr>MinAmount := 200000\<rparr>)
     = Return (Some (Errorf ''minimum amount should be less than amount'')) \<and>
   main (Suc 0) exampleEnv (exampleParams\<lparr>MinAmount := 200000\<rparr>) 0
     = Some (Fatal ''minimum amount should be less than amount'', 0, [])"
proof -
  let ?p = "exampleParams\<lparr>MinAmount := 200000\<rparr>"
  have h: "0 <s MinAmount ?p" "0 <s Amount ?p" "Amount ?p <s MinAmount ?p"
    by (simp_all add: scenario_defs word_sless_alt)
  have g: "\<not> Version ?p" "\<not> (EconRatioMaxPPM ?p \<noteq> 0 \<and> FeeLimitPPM ?p \<noteq> 0)"
    by (simp_all add: scenario_defs)
  from main_min_amount_fatal [OF h, of "Suc 0" exampleEnv 0]
  have "\<not> Version ?p \<and> \<not> (EconRatioMaxPPM ?p \<noteq> 0 \<and> FeeLimitPPM ?p \<noteq> 0) \<longrightarrow>
      preflightError ?p = Return (Some (Errorf ''minimum amount should be less than amount'')) \<and>
      main (Suc 0) exampleEnv ?p 0
        = Some (Fatal ''minimum amount should be less than amount'', 0, [])"
    by (rule conjunct2)
  with g have "preflightError ?p = Return (Some (Errorf ''minimum amount should be less than amount'')) \<and>
      main (Suc 0) exampleEnv ?p 0
        = Some (Fatal ''minimum amount should be less than amount'', 0, [])"
    by blast
  with h show ?thesis
    by blast
qed

section \<open>Channel ids\<close>








end
